theory Spec2Isabelle
  imports Complex_Main "HOL-Library.Sublist"
begin

section \<open>Data model (types.ts and the refs of the FishGame component)\<close>

text \<open>
  JavaScript numbers are modelled as mathematical reals: arithmetic is exact, and the
  special values NaN and Infinity do not occur. The score only ever receives integer
  summands (\<open>Math.floor\<close>), so it is an \<open>int\<close>. Record fields carry a one-letter
  prefix (\<open>f\<close> for FishEntity, \<open>p\<close> for Particle, \<open>s\<close> for Shockwave) because the
  three interfaces share the field names \<open>x\<close>, \<open>y\<close>, \<open>size\<close>, \<open>alpha\<close>, \<open>color\<close>.
\<close>

datatype GameState = LOADING | MENU | PLAYING | GAME_OVER

datatype FishVariant = Prey | Hunter | Dasher | Titan | Viper | Player

type_synonym rgb = "nat \<times> nat \<times> nat"

record FishEntity =
  fid :: string
  fx :: real
  fy :: real
  fsize :: real
  fvx :: real
  fvy :: real
  fcolor :: rgb
  fspeed :: real
  fnoiseOffset :: real
  fvariant :: FishVariant

record Particle =
  px :: real
  py :: real
  psize :: real
  pvy :: real
  palpha :: real
  pcolor :: "rgb option"

record Shockwave =
  sx :: real
  sy :: real
  maxRadius :: real
  currentRadius :: real
  salpha :: real
  scolor :: rgb
  lineWidth :: real

datatype Sound = Eat | Hurt

text \<open>
  What one call of \<open>updateGameLogic\<close> reads from its surroundings: the p5 clock and
  canvas, the scale factor (written only by \<open>updateScaleFactor\<close> on setup and resize, so
  constant during a tick), the stream of results of \<open>p.random()\<close>, the noise field
  \<open>p.noise\<close> and the strings produced by \<open>Math.random().toString()\<close>.
\<close>

record Env =
  millis :: real
  deltaTime :: real
  width :: real
  height :: real
  sf :: real
  rand :: "nat \<Rightarrow> real"
  noise :: "real \<Rightarrow> real"
  mathRandom :: "nat \<Rightarrow> string"

text \<open>
  The mutable refs of the component. \<open>rng\<close> counts the calls of \<open>p.random()\<close> made so
  far and \<open>idCount\<close> the ids made so far by \<open>Math.random().toString()\<close> in
  \<open>spawnEnemy\<close>, that is the enemies spawned (the calls of \<open>Math.random()\<close> inside
  \<open>playSound\<close> fill audio buffers and belong to the audio layer, which is not modelled); \<open>sounds\<close> logs the calls of
  \<open>playSound\<close>, newest first; \<open>scoreProp\<close>, \<open>finalSizeProp\<close>, \<open>causeOfDeathProp\<close> and
  \<open>gameStateProp\<close> hold the last argument given to the callbacks \<open>setScore\<close>,
  \<open>setFinalSize\<close>, \<open>setCauseOfDeath\<close> and \<open>setGameState\<close>; \<open>maxDanger\<close> is the local
  variable of that name in \<open>updateGameLogic\<close>.
\<close>

record Session =
  player :: FishEntity
  enemies :: "FishEntity list"
  particles :: "Particle list"
  shockwaves :: "Shockwave list"
  scoreRef :: int
  lastSpawnTime :: real
  dangerIntensity :: real
  playerHealth :: real
  invulnTimer :: real
  screenShake :: real
  damageEffectVal :: real
  maxDanger :: real
  rng :: nat
  idCount :: nat
  sounds :: "Sound list"
  scoreProp :: int
  finalSizeProp :: int
  causeOfDeathProp :: "FishVariant option"
  gameStateProp :: GameState

definition maxHealth :: real where
  "maxHealth = 100"

section \<open>The p5 helpers the game calls\<close>

definition p5_dist :: "real \<Rightarrow> real \<Rightarrow> real \<Rightarrow> real \<Rightarrow> real" where
  "p5_dist x1 y1 x2 y2 = sqrt ((x2 - x1)\<^sup>2 + (y2 - y1)\<^sup>2)"

definition p5_lerp :: "real \<Rightarrow> real \<Rightarrow> real \<Rightarrow> real" where
  "p5_lerp start stop amt = amt * (stop - start) + start"

definition p5_constrain :: "real \<Rightarrow> real \<Rightarrow> real \<Rightarrow> real" where
  "p5_constrain n low high = max (min n high) low"

definition p5_map :: "real \<Rightarrow> real \<Rightarrow> real \<Rightarrow> real \<Rightarrow> real \<Rightarrow> real" where
  "p5_map n start1 stop1 start2 stop2 =
     (n - start1) / (stop1 - start1) * (stop2 - start2) + start2"

definition p5_atan2 :: "real \<Rightarrow> real \<Rightarrow> real" where
  "p5_atan2 y x =
     (if 0 < x then arctan (y / x)
      else if x < 0 then (if 0 \<le> y then arctan (y / x) + pi else arctan (y / x) - pi)
      else if 0 < y then pi / 2
      else if y < 0 then - (pi / 2)
      else 0)"

text \<open>\<open>p.random(min, max)\<close>, \<open>p.random(max)\<close> and \<open>p.random(array)\<close>, each applied to
  the raw draw \<open>r\<close> of \<open>p.random()\<close>, which lies in \<open>[0, 1)\<close>.\<close>

definition random_between :: "real \<Rightarrow> real \<Rightarrow> real \<Rightarrow> real" where
  "random_between lo hi r =
     (if lo > hi then r * (lo - hi) + hi else r * (hi - lo) + lo)"

definition random_upto :: "real \<Rightarrow> real \<Rightarrow> real" where
  "random_upto hi r = r * hi"

definition random_choice :: "'a list \<Rightarrow> real \<Rightarrow> 'a" where
  "random_choice xs r = xs ! nat \<lfloor>r * real (length xs)\<rfloor>"

text \<open>\<open>Array.prototype.splice(i, 1)\<close>: removes the element at index \<open>i\<close>, and nothing
  when \<open>i\<close> is the length or more.\<close>

definition splice1 :: "nat \<Rightarrow> 'a list \<Rightarrow> 'a list" where
  "splice1 i xs = take i xs @ drop (Suc i) xs"

section \<open>Spawner\<close>

text \<open>Lines 427 to 433 of \<open>updateGameLogic\<close>: the interval from the score and the
  number of live enemies.\<close>

definition activeSpawnInterval :: "int \<Rightarrow> nat \<Rightarrow> int" where
  "activeSpawnInterval score n =
     (let base = max 600 (1500 - score * 5)
      in if n < 8 then 300
         else if n < 15 then min base 800
         else base)"

text \<open>\<open>spawnEnemy\<close>, first half: the branch taken and the variant chosen. \<open>r0\<close> is the
  first draw (\<open>isPrey\<close>), \<open>r1\<close> the draw named \<open>rand\<close> of the other branch.\<close>

definition isPrey :: "real \<Rightarrow> bool" where
  "isPrey r0 = (r0 > 0.4)"

definition predatorVariant :: "real \<Rightarrow> FishVariant" where
  "predatorVariant r1 =
     (if r1 < 0.35 then Hunter
      else if r1 < 0.65 then Dasher
      else if r1 < 0.85 then Viper
      else Titan)"

definition spawnVariant :: "real \<Rightarrow> real \<Rightarrow> FishVariant" where
  "spawnVariant r0 r1 = (if isPrey r0 then Prey else predatorVariant r1)"

definition variantColors :: "FishVariant \<Rightarrow> rgb list" where
  "variantColors v =
     (case v of
        Prey \<Rightarrow> [(0, 255, 100), (0, 200, 255), (255, 100, 200), (255, 255, 0), (200, 200, 255)]
      | Hunter \<Rightarrow> [(255, 50, 50), (255, 120, 0)]
      | Dasher \<Rightarrow> [(0, 255, 255), (200, 255, 255), (255, 255, 0)]
      | Viper \<Rightarrow> [(150, 255, 0), (180, 200, 50), (100, 200, 100)]
      | _ \<Rightarrow> [(50, 70, 90), (80, 50, 50), (30, 30, 40)])"

definition variantSize :: "real \<Rightarrow> real \<Rightarrow> FishVariant \<Rightarrow> real \<Rightarrow> real" where
  "variantSize scale pSize v r =
     (case v of
        Prey \<Rightarrow> p5_constrain (random_between (pSize * 0.3) (pSize * 0.8) r) (10 * scale) (300 * scale)
      | Hunter \<Rightarrow> random_between (pSize * 1.1) (pSize * 2.0) r
      | Dasher \<Rightarrow> random_between (pSize * 1.0) (pSize * 1.4) r
      | Viper \<Rightarrow> random_between (pSize * 1.1) (pSize * 1.6) r
      | _ \<Rightarrow> random_between (pSize * 1.8) (pSize * 3.0) r)"

definition variantSpeed :: "real \<Rightarrow> FishVariant \<Rightarrow> real \<Rightarrow> real" where
  "variantSpeed scale v r =
     (case v of
        Prey \<Rightarrow> random_between 3 6 r * scale
      | Hunter \<Rightarrow> random_between 2 4 r * scale
      | Dasher \<Rightarrow> random_between 5 7 r * scale
      | Viper \<Rightarrow> random_between 3 5 r * scale
      | _ \<Rightarrow> random_between 0.5 1.5 r * scale)"

text \<open>\<open>spawnEnemy\<close>. The prey branch makes seven draws, the other branch eight (the
  extra one is \<open>rand\<close>); \<open>k\<close> is the index of the draw after the variant is known.\<close>

definition spawnEnemy :: "Env \<Rightarrow> Session \<Rightarrow> Session" where
  "spawnEnemy env st =
     (let r0 = rand env (rng st);
          k = (if isPrey r0 then rng st + 1 else rng st + 2);
          variant = spawnVariant r0 (rand env (rng st + 1));
          size = variantSize (sf env) (fsize (player st)) variant (rand env k);
          color = random_choice (variantColors variant) (rand env (k + 1));
          speed = variantSpeed (sf env) variant (rand env (k + 2));
          y = random_between (50 * sf env) (height env - 50 * sf env) (rand env (k + 3));
          fromLeft = (rand env (k + 4) > 0.5);
          e = \<lparr> fid = mathRandom env (idCount st),
                fx = (if fromLeft then - size * 2 else width env + size * 2),
                fy = y,
                fsize = size,
                fvx = (if fromLeft then speed else - speed),
                fvy = 0,
                fcolor = color,
                fspeed = speed,
                fnoiseOffset = random_upto 1000 (rand env (k + 5)),
                fvariant = variant \<rparr>
      in st\<lparr> enemies := enemies st @ [e], rng := k + 6, idCount := Suc (idCount st) \<rparr>)"

text \<open>Lines 435 to 438: at most one call of \<open>spawnEnemy\<close>, when the time since the last
  spawn exceeds the interval.\<close>

definition spawnPhase :: "Env \<Rightarrow> Session \<Rightarrow> Session" where
  "spawnPhase env st =
     (if millis env - lastSpawnTime st
           > real_of_int (activeSpawnInterval (scoreRef st) (length (enemies st)))
      then (spawnEnemy env st)\<lparr> lastSpawnTime := millis env \<rparr>
      else st)"

section \<open>Health bookkeeping at the start of a tick\<close>

text \<open>Lines 417 to 419.\<close>

definition tickInvuln :: "Env \<Rightarrow> Session \<Rightarrow> Session" where
  "tickInvuln env st =
     (if invulnTimer st > 0 then st\<lparr> invulnTimer := invulnTimer st - deltaTime env \<rparr> else st)"

text \<open>Lines 421 to 424.\<close>

definition regenHealth :: "Session \<Rightarrow> Session" where
  "regenHealth st =
     (if playerHealth st < maxHealth \<and> invulnTimer st \<le> 0
      then st\<lparr> playerHealth := min (playerHealth st + 0.05) maxHealth \<rparr>
      else st)"

section \<open>Effects emitted by the collision resolver\<close>

text \<open>\<open>spawnParticles\<close>: \<open>count\<close> particles, two draws each (size, then vy).\<close>

fun spawnParticles :: "Env \<Rightarrow> real \<Rightarrow> real \<Rightarrow> rgb \<Rightarrow> nat \<Rightarrow> Session \<Rightarrow> Session" where
  "spawnParticles env x y color 0 st = st"
| "spawnParticles env x y color (Suc n) st =
     spawnParticles env x y color n
       (st\<lparr> particles := particles st @
               [\<lparr> px = x, py = y,
                  psize = random_between 3 8 (rand env (rng st)) * sf env,
                  pvy = random_between (-3) 3 (rand env (rng st + 1)) * sf env,
                  palpha = 255,
                  pcolor = Some color \<rparr>],
             rng := rng st + 2 \<rparr>)"

definition spawnShockwave :: "Env \<Rightarrow> real \<Rightarrow> real \<Rightarrow> rgb \<Rightarrow> Session \<Rightarrow> Session" where
  "spawnShockwave env x y color st =
     st\<lparr> shockwaves := shockwaves st @
            [\<lparr> sx = x, sy = y,
               maxRadius = random_between 80 120 (rand env (rng st)) * sf env,
               currentRadius = 10 * sf env,
               salpha = 200,
               scolor = color,
               lineWidth = 8 * sf env \<rparr>],
          rng := rng st + 1 \<rparr>"

section \<open>Behaviour of one enemy (lines 444 to 511)\<close>

definition detectionRange :: "real \<Rightarrow> FishVariant \<Rightarrow> real" where
  "detectionRange scale v =
     (if v = Dasher then 600 * scale
      else if v = Titan then 500 * scale
      else if v = Viper then 450 * scale
      else 400 * scale)"

definition chaseSpeedMultiplier :: "FishVariant \<Rightarrow> real" where
  "chaseSpeedMultiplier v =
     (if v = Dasher then 2.2 else if v = Titan then 0.8 else if v = Viper then 1.6 else 1.3)"

definition steerStrength :: "FishVariant \<Rightarrow> real" where
  "steerStrength v =
     (if v = Dasher then 0.04 else if v = Titan then 0.05 else if v = Viper then 0.12 else 0.08)"

text \<open>Line 465.\<close>

definition actuallyPredator :: "FishEntity \<Rightarrow> FishEntity \<Rightarrow> bool" where
  "actuallyPredator pl e = (fsize e > fsize pl)"

text \<open>Line 467: the condition of the chase branch.\<close>

definition chasing :: "Env \<Rightarrow> FishEntity \<Rightarrow> FishEntity \<Rightarrow> real \<Rightarrow> bool" where
  "chasing env pl e distToPlayer =
     (actuallyPredator pl e \<and> distToPlayer < detectionRange (sf env) (fvariant e))"

text \<open>Lines 468 to 474, inside the chase branch: the pull of a titan on the player and
  the added screen shake.\<close>

definition titanPull :: "Env \<Rightarrow> FishEntity \<Rightarrow> real \<Rightarrow> Session \<Rightarrow> Session" where
  "titanPull env e distToPlayer st =
     (if fvariant e = Titan then
        (let pullStrength = 0.4 * sf env;
             pl = player st;
             angleToTitan = p5_atan2 (fy e - fy pl) (fx e - fx pl)
         in st\<lparr> player := pl\<lparr> fx := fx pl + cos angleToTitan * pullStrength,
                               fy := fy pl + sin angleToTitan * pullStrength \<rparr>,
                screenShake := (if distToPlayer < 200 * sf env
                                then screenShake st + 0.2 else screenShake st) \<rparr>)
      else st)"

text \<open>Lines 476 and 477.\<close>

definition dangerUpdate :: "Env \<Rightarrow> FishEntity \<Rightarrow> real \<Rightarrow> Session \<Rightarrow> Session" where
  "dangerUpdate env e distToPlayer st =
     (let danger = p5_constrain
            (p5_map distToPlayer (detectionRange (sf env) (fvariant e)) (100 * sf env) 0 1) 0 1
      in if danger > maxDanger st then st\<lparr> maxDanger := danger \<rparr> else st)"

text \<open>Lines 479 to 494: the new velocity of a chasing enemy; \<open>pl\<close> is the player after
  the pull.\<close>

definition chase :: "Env \<Rightarrow> FishEntity \<Rightarrow> FishEntity \<Rightarrow> FishEntity" where
  "chase env pl e =
     (let angle = p5_atan2 (fy pl - fy e) (fx pl - fx e);
          chaseSpeed = fspeed e * chaseSpeedMultiplier (fvariant e);
          playerIsDashing = (fspeed pl > 15 * sf env);
          trackingStrength = (if playerIsDashing then 0.015 else steerStrength (fvariant e));
          oscillation = sin (millis env * 0.01) * (4 * sf env);
          targetVx = (if fvariant e = Viper
                      then cos angle * chaseSpeed + - sin angle * oscillation
                      else cos angle * chaseSpeed);
          targetVy = (if fvariant e = Viper
                      then sin angle * chaseSpeed + cos angle * oscillation
                      else sin angle * chaseSpeed)
      in e\<lparr> fvx := p5_lerp (fvx e) targetVx trackingStrength,
             fvy := p5_lerp (fvy e) targetVy trackingStrength \<rparr>)"

text \<open>Lines 497 to 507: the new velocity of a wandering enemy.\<close>

definition wander :: "Env \<Rightarrow> FishEntity \<Rightarrow> FishEntity" where
  "wander env e =
     (let yNoise = noise env (fnoiseOffset e + millis env * 0.0005);
          speedNoise = noise env (fnoiseOffset e + 1000 + millis env * 0.001);
          driftY = p5_map yNoise 0 1 (-1.5 * sf env) (1.5 * sf env);
          speedMult = p5_map speedNoise 0 1 0.8 1.2;
          intendedDir = (if fvx e > 0 then 1 else -1);
          wanderSpeed = (if fvariant e = Titan then fspeed e * 0.5 else fspeed e)
      in e\<lparr> fvx := p5_lerp (fvx e) (intendedDir * wanderSpeed * speedMult) 0.05,
             fvy := p5_lerp (fvy e) driftY 0.05 \<rparr>)"

text \<open>Lines 510 and 511.\<close>

definition moveEnemy :: "FishEntity \<Rightarrow> FishEntity" where
  "moveEnemy e = e\<lparr> fx := fx e + fvx e, fy := fy e + fvy e \<rparr>"

section \<open>Collision and progression (lines 513 to 549)\<close>

text \<open>Lines 515 to 523: the player eats enemy \<open>e\<close>, which stands at index \<open>i\<close>.\<close>

definition consumeEnemy :: "Env \<Rightarrow> FishEntity \<Rightarrow> nat \<Rightarrow> Session \<Rightarrow> Session" where
  "consumeEnemy env e i st =
     (let score = scoreRef st + \<lfloor>fsize e / sf env\<rfloor>;
          st1 = st\<lparr> player := (player st)\<lparr> fsize := fsize (player st) + fsize e * 0.1 \<rparr>,
                    scoreRef := score,
                    playerHealth := min (playerHealth st + 10) maxHealth,
                    scoreProp := score,
                    enemies := splice1 i (enemies st) \<rparr>;
          st2 = spawnParticles env (fx e) (fy e) (fcolor e) 15 st1;
          st3 = spawnShockwave env (fx e) (fy e) (fcolor e) st2
      in st3\<lparr> sounds := Eat # sounds st3 \<rparr>)"

text \<open>Lines 526 to 542: enemy \<open>e\<close> hurts the player.\<close>

definition damagePlayer :: "Env \<Rightarrow> FishEntity \<Rightarrow> Session \<Rightarrow> Session" where
  "damagePlayer env e st =
     (let damage = (if fvariant e = Titan then 60 else 35);
          baseImpact = (fsize e / sf env) * 0.8 + (fspeed e / sf env) * 2.0;
          st1 = st\<lparr> playerHealth := playerHealth st - damage,
                    damageEffectVal := 1.0,
                    screenShake := min (baseImpact * sf env) (50 * sf env),
                    invulnTimer := 1500 \<rparr>;
          st2 = spawnParticles env (fx (player st)) (fy (player st)) (255, 0, 0) 20 st1;
          st3 = st2\<lparr> sounds := Hurt # sounds st2 \<rparr>
      in if playerHealth st3 \<le> 0
         then st3\<lparr> finalSizeProp := \<lfloor>fsize (player st3) / sf env\<rfloor>,
                   causeOfDeathProp := Some (fvariant e),
                   gameStateProp := GAME_OVER \<rparr>
         else st3)"

text \<open>Lines 513 to 545. \<open>distToPlayer\<close> was measured before the enemy moved; \<open>e\<close> is the
  enemy after its move.\<close>

definition resolveCollision :: "Env \<Rightarrow> real \<Rightarrow> FishEntity \<Rightarrow> nat \<Rightarrow> Session \<Rightarrow> Session" where
  "resolveCollision env distToPlayer e i st =
     (if distToPlayer < fsize (player st) * 0.6 + fsize e * 0.6 then
        (if fsize (player st) \<ge> fsize e then consumeEnemy env e i st
         else if invulnTimer st \<le> 0 then damagePlayer env e st
         else st)
      else st)"

text \<open>Lines 547 to 549. The test reads the object \<open>e\<close>, the splice removes whatever
  stands at index \<open>i\<close> now.\<close>

definition offscreen :: "Env \<Rightarrow> FishEntity \<Rightarrow> bool" where
  "offscreen env e = (fx e < -300 * sf env \<or> fx e > width env + 300 * sf env)"

definition pruneOffscreen :: "Env \<Rightarrow> FishEntity \<Rightarrow> nat \<Rightarrow> Session \<Rightarrow> Session" where
  "pruneOffscreen env e i st =
     (if offscreen env e then st\<lparr> enemies := splice1 i (enemies st) \<rparr> else st)"

section \<open>The enemy loop and the whole tick\<close>

text \<open>The distance of line 445, and the body of the loop for index \<open>i\<close>. Reading a field
  of \<open>enemies.current[i]\<close> beyond the end of the array throws a TypeError: \<open>None\<close>.\<close>

definition distToPlayer :: "Session \<Rightarrow> FishEntity \<Rightarrow> real" where
  "distToPlayer st e = p5_dist (fx (player st)) (fy (player st)) (fx e) (fy e)"

text \<open>The guard under which the pull of lines 469 to 472 runs: the test of line 467
  together with that of line 468, with the detection range of a titan written out.\<close>

definition titanPulls :: "Env \<Rightarrow> FishEntity \<Rightarrow> Session \<Rightarrow> bool" where
  "titanPulls env e st =
     (fvariant e = Titan \<and> fsize (player st) < fsize e \<and> distToPlayer st e < 500 * sf env)"

definition steered :: "Env \<Rightarrow> FishEntity \<Rightarrow> Session \<Rightarrow> Session" where
  "steered env e st =
     (if chasing env (player st) e (distToPlayer st e)
      then dangerUpdate env e (distToPlayer st e) (titanPull env e (distToPlayer st e) st)
      else st)"

definition movedEnemy :: "Env \<Rightarrow> FishEntity \<Rightarrow> Session \<Rightarrow> FishEntity" where
  "movedEnemy env e st =
     moveEnemy (if chasing env (player st) e (distToPlayer st e)
                then chase env (player (steered env e st)) e
                else wander env e)"

definition enemyBody :: "Env \<Rightarrow> nat \<Rightarrow> FishEntity \<Rightarrow> Session \<Rightarrow> Session" where
  "enemyBody env i e st =
     (let d = distToPlayer st e;
          e1 = movedEnemy env e st;
          st1 = steered env e st;
          st2 = st1\<lparr> enemies := (enemies st1)[i := e1] \<rparr>
      in pruneOffscreen env e1 i (resolveCollision env d e1 i st2))"

definition enemyStep :: "Env \<Rightarrow> nat \<Rightarrow> Session \<Rightarrow> Session option" where
  "enemyStep env i st =
     (if i < length (enemies st) then Some (enemyBody env i (enemies st ! i) st) else None)"

text \<open>\<open>enemyLoop env n\<close> runs the body for the indices \<open>n - 1\<close> down to \<open>0\<close>; the source
  starts at \<open>enemies.current.length - 1\<close>.\<close>

fun enemyLoop :: "Env \<Rightarrow> nat \<Rightarrow> Session \<Rightarrow> Session option" where
  "enemyLoop env 0 st = Some st"
| "enemyLoop env (Suc i) st =
     (case enemyStep env i st of None \<Rightarrow> None | Some st' \<Rightarrow> enemyLoop env i st')"


text \<open>Lines 552 to 562.\<close>

definition finishTick :: "Env \<Rightarrow> Session \<Rightarrow> Session" where
  "finishTick env st =
     (let st1 = st\<lparr> dangerIntensity := p5_lerp (dangerIntensity st) (maxDanger st) 0.1 \<rparr>
      in if rand env (rng st1) < 0.1
         then st1\<lparr> particles := particles st1 @
                      [\<lparr> px = random_upto (width env) (rand env (rng st1 + 1)),
                         py = height env + 20,
                         psize = random_between 1 4 (rand env (rng st1 + 2)) * sf env,
                         pvy = random_between 1 3 (rand env (rng st1 + 3)) * sf env,
                         palpha = 100,
                         pcolor = None \<rparr>],
                   rng := rng st1 + 4 \<rparr>
         else st1\<lparr> rng := rng st1 + 1 \<rparr>)"

text \<open>The state when the loop starts (lines 417 to 441).\<close>

definition beforeLoop :: "Env \<Rightarrow> Session \<Rightarrow> Session" where
  "beforeLoop env st = (spawnPhase env (regenHealth (tickInvuln env st)))\<lparr> maxDanger := 0 \<rparr>"

definition updateGameLogic :: "Env \<Rightarrow> Session \<Rightarrow> Session option" where
  "updateGameLogic env st =
     map_option (finishTick env)
       (enemyLoop env (length (enemies (beforeLoop env st))) (beforeLoop env st))"

text \<open>\<open>p.draw\<close> calls \<open>updateGameLogic\<close> only in the PLAYING state.\<close>

definition tick :: "GameState \<Rightarrow> Env \<Rightarrow> Session \<Rightarrow> Session option" where
  "tick gameState env st = (if gameState = PLAYING then updateGameLogic env st else Some st)"

section \<open>Shockwaves\<close>

text \<open>The body of the loop of \<open>drawShockwaves\<close> (lines 653 to 662); drawing changes no
  state.\<close>

definition updateShockwave :: "real \<Rightarrow> Shockwave \<Rightarrow> Shockwave" where
  "updateShockwave scale sw =
     sw\<lparr> currentRadius := currentRadius sw + ((maxRadius sw - currentRadius sw) * 0.15 + 1 * scale),
          salpha := salpha sw - 10,
          lineWidth := lineWidth sw * 0.9 \<rparr>"

definition shockwaveGone :: "Shockwave \<Rightarrow> bool" where
  "shockwaveGone sw = (salpha sw \<le> 0 \<or> lineWidth sw < 0.5)"

definition shockwaveStep :: "real \<Rightarrow> nat \<Rightarrow> Shockwave list \<Rightarrow> Shockwave list option" where
  "shockwaveStep scale i sws =
     (if i < length sws then
        (let sw = updateShockwave scale (sws ! i)
         in Some (if shockwaveGone sw then splice1 i (sws[i := sw]) else sws[i := sw]))
      else None)"

fun shockwaveLoop :: "real \<Rightarrow> nat \<Rightarrow> Shockwave list \<Rightarrow> Shockwave list option" where
  "shockwaveLoop scale 0 sws = Some sws"
| "shockwaveLoop scale (Suc i) sws =
     (case shockwaveStep scale i sws of None \<Rightarrow> None | Some sws' \<Rightarrow> shockwaveLoop scale i sws')"

definition drawShockwaves :: "real \<Rightarrow> Shockwave list \<Rightarrow> Shockwave list option" where
  "drawShockwaves scale sws = shockwaveLoop scale (length sws) sws"

text \<open>\<open>n\<close> frames of \<open>drawShockwaves\<close>.\<close>

fun shockwaveFrames :: "real \<Rightarrow> nat \<Rightarrow> Shockwave list \<Rightarrow> Shockwave list option" where
  "shockwaveFrames scale 0 sws = Some sws"
| "shockwaveFrames scale (Suc n) sws =
     (case drawShockwaves scale sws of None \<Rightarrow> None | Some sws' \<Rightarrow> shockwaveFrames scale n sws')"

section \<open>Sample inputs\<close>

text \<open>A canvas of 800 by 800 (scale factor 1), a frame of 16 ms, every random draw and
  every noise value one half; a fish at rest on the line \<open>y = 0\<close>; and a session whose
  player rests at the origin, with nothing spawned yet.\<close>

definition demoEnv :: Env where
  "demoEnv = \<lparr> millis = 0, deltaTime = 16, width = 800, height = 800, sf = 1,
       rand = (\<lambda>k. 1 / 2), noise = (\<lambda>t. 1 / 2), mathRandom = (\<lambda>k. ''0.5'') \<rparr>"

definition demoFish :: "FishVariant \<Rightarrow> real \<Rightarrow> real \<Rightarrow> FishEntity" where
  "demoFish v x sz =
     \<lparr> fid = ''fish'', fx = x, fy = 0, fsize = sz, fvx = 0, fvy = 0,
       fcolor = (0, 255, 255), fspeed = 0, fnoiseOffset = 0, fvariant = v \<rparr>"

definition demoSession :: "real \<Rightarrow> real \<Rightarrow> real \<Rightarrow> FishEntity list \<Rightarrow> Session" where
  "demoSession pSize health timer es =
     \<lparr> player = demoFish Player 0 pSize, enemies = es, particles = [], shockwaves = [],
       scoreRef = 0, lastSpawnTime = 0, dangerIntensity = 0, playerHealth = health,
       invulnTimer = timer, screenShake = 0, damageEffectVal = 0, maxDanger = 0,
       rng = 0, idCount = 0, sounds = [], scoreProp = 0, finalSizeProp = 0,
       causeOfDeathProp = None, gameStateProp = PLAYING \<rparr>"

text \<open>The enemy that \<open>spawnEnemy\<close> makes from these draws for a player of size 20.\<close>

definition demoSpawned :: FishEntity where
  "demoSpawned = \<lparr> fid = ''0.5'', fx = 822, fy = 400, fsize = 11, fvx = - (9 / 2), fvy = 0,
       fcolor = (255, 100, 200), fspeed = 9 / 2, fnoiseOffset = 500, fvariant = Prey \<rparr>"

text \<open>The shockwave that \<open>spawnShockwave\<close> makes on that canvas.\<close>

definition demoShockwave :: Shockwave where
  "demoShockwave = \<lparr> sx = 0, sy = 0, maxRadius = 100, currentRadius = 10, salpha = 200,
       scolor = (0, 255, 255), lineWidth = 8 \<rparr>"

text \<open>What a tick never changes of an enemy.\<close>

definition fixedPart :: "FishEntity \<Rightarrow> string \<times> real \<times> real \<times> rgb \<times> FishVariant \<times> real" where
  "fixedPart e = (fid e, fsize e, fspeed e, fcolor e, fvariant e, fnoiseOffset e)"

section \<open>Frame lemmas: what each phase leaves alone\<close>

lemma spawnParticles_fields [simp]:
  "player (spawnParticles env x y c n st) = player st"
  "enemies (spawnParticles env x y c n st) = enemies st"
  "shockwaves (spawnParticles env x y c n st) = shockwaves st"
  "scoreRef (spawnParticles env x y c n st) = scoreRef st"
  "lastSpawnTime (spawnParticles env x y c n st) = lastSpawnTime st"
  "dangerIntensity (spawnParticles env x y c n st) = dangerIntensity st"
  "playerHealth (spawnParticles env x y c n st) = playerHealth st"
  "invulnTimer (spawnParticles env x y c n st) = invulnTimer st"
  "screenShake (spawnParticles env x y c n st) = screenShake st"
  "damageEffectVal (spawnParticles env x y c n st) = damageEffectVal st"
  "maxDanger (spawnParticles env x y c n st) = maxDanger st"
  "idCount (spawnParticles env x y c n st) = idCount st"
  "sounds (spawnParticles env x y c n st) = sounds st"
  "scoreProp (spawnParticles env x y c n st) = scoreProp st"
  "finalSizeProp (spawnParticles env x y c n st) = finalSizeProp st"
  "causeOfDeathProp (spawnParticles env x y c n st) = causeOfDeathProp st"
  "gameStateProp (spawnParticles env x y c n st) = gameStateProp st"
  "rng (spawnParticles env x y c n st) = rng st + 2 * n"
  "length (particles (spawnParticles env x y c n st)) = length (particles st) + n"
  by (induction n arbitrary: st) simp_all

lemma consumeEnemy_fields [simp]:
  "player (consumeEnemy env e i st) = (player st)\<lparr> fsize := fsize (player st) + fsize e * 0.1 \<rparr>"
  "enemies (consumeEnemy env e i st) = splice1 i (enemies st)"
  "scoreRef (consumeEnemy env e i st) = scoreRef st + \<lfloor>fsize e / sf env\<rfloor>"
  "scoreProp (consumeEnemy env e i st) = scoreRef st + \<lfloor>fsize e / sf env\<rfloor>"
  "playerHealth (consumeEnemy env e i st) = min (playerHealth st + 10) maxHealth"
  "invulnTimer (consumeEnemy env e i st) = invulnTimer st"
  "screenShake (consumeEnemy env e i st) = screenShake st"
  "damageEffectVal (consumeEnemy env e i st) = damageEffectVal st"
  "maxDanger (consumeEnemy env e i st) = maxDanger st"
  "lastSpawnTime (consumeEnemy env e i st) = lastSpawnTime st"
  "sounds (consumeEnemy env e i st) = Eat # sounds st"
  "gameStateProp (consumeEnemy env e i st) = gameStateProp st"
  "causeOfDeathProp (consumeEnemy env e i st) = causeOfDeathProp st"
  "finalSizeProp (consumeEnemy env e i st) = finalSizeProp st"
  "length (shockwaves (consumeEnemy env e i st)) = length (shockwaves st) + 1"
  "length (particles (consumeEnemy env e i st)) = length (particles st) + 15"
  by (simp_all add: consumeEnemy_def spawnShockwave_def Let_def)

lemma damagePlayer_fields [simp]:
  "player (damagePlayer env e st) = player st"
  "enemies (damagePlayer env e st) = enemies st"
  "scoreRef (damagePlayer env e st) = scoreRef st"
  "scoreProp (damagePlayer env e st) = scoreProp st"
  "playerHealth (damagePlayer env e st) = playerHealth st - (if fvariant e = Titan then 60 else 35)"
  "invulnTimer (damagePlayer env e st) = 1500"
  "damageEffectVal (damagePlayer env e st) = 1"
  "screenShake (damagePlayer env e st)
     = min (((fsize e / sf env) * 0.8 + (fspeed e / sf env) * 2.0) * sf env) (50 * sf env)"
  "maxDanger (damagePlayer env e st) = maxDanger st"
  "lastSpawnTime (damagePlayer env e st) = lastSpawnTime st"
  "sounds (damagePlayer env e st) = Hurt # sounds st"
  "shockwaves (damagePlayer env e st) = shockwaves st"
  "length (particles (damagePlayer env e st)) = length (particles st) + 20"
  by (simp_all add: damagePlayer_def Let_def)

lemma steered_fields [simp]:
  "enemies (steered env e st) = enemies st"
  "scoreRef (steered env e st) = scoreRef st"
  "scoreProp (steered env e st) = scoreProp st"
  "playerHealth (steered env e st) = playerHealth st"
  "invulnTimer (steered env e st) = invulnTimer st"
  "damageEffectVal (steered env e st) = damageEffectVal st"
  "lastSpawnTime (steered env e st) = lastSpawnTime st"
  "sounds (steered env e st) = sounds st"
  "shockwaves (steered env e st) = shockwaves st"
  "particles (steered env e st) = particles st"
  "gameStateProp (steered env e st) = gameStateProp st"
  "fsize (player (steered env e st)) = fsize (player st)"
  "fspeed (player (steered env e st)) = fspeed (player st)"
  by (simp_all add: steered_def titanPull_def dangerUpdate_def Let_def)

lemma movedEnemy_fixed [simp]:
  "fid (movedEnemy env e st) = fid e"
  "fsize (movedEnemy env e st) = fsize e"
  "fspeed (movedEnemy env e st) = fspeed e"
  "fcolor (movedEnemy env e st) = fcolor e"
  "fvariant (movedEnemy env e st) = fvariant e"
  "fnoiseOffset (movedEnemy env e st) = fnoiseOffset e"
  by (simp_all add: movedEnemy_def moveEnemy_def chase_def wander_def Let_def)

lemma resolveCollision_alt:
  "resolveCollision env d e i st =
     (if d < fsize (player st) * 0.6 + fsize e * 0.6 \<and> fsize e \<le> fsize (player st)
        then consumeEnemy env e i st
      else if d < fsize (player st) * 0.6 + fsize e * 0.6 \<and> invulnTimer st \<le> 0
        then damagePlayer env e st
      else st)"
  by (simp add: resolveCollision_def)

lemma pruneOffscreen_fields [simp]:
  "player (pruneOffscreen env e i st) = player st"
  "scoreRef (pruneOffscreen env e i st) = scoreRef st"
  "scoreProp (pruneOffscreen env e i st) = scoreProp st"
  "playerHealth (pruneOffscreen env e i st) = playerHealth st"
  "invulnTimer (pruneOffscreen env e i st) = invulnTimer st"
  "screenShake (pruneOffscreen env e i st) = screenShake st"
  "damageEffectVal (pruneOffscreen env e i st) = damageEffectVal st"
  "maxDanger (pruneOffscreen env e i st) = maxDanger st"
  "lastSpawnTime (pruneOffscreen env e i st) = lastSpawnTime st"
  "sounds (pruneOffscreen env e i st) = sounds st"
  "shockwaves (pruneOffscreen env e i st) = shockwaves st"
  "particles (pruneOffscreen env e i st) = particles st"
  "gameStateProp (pruneOffscreen env e i st) = gameStateProp st"
  by (simp_all add: pruneOffscreen_def)

lemma enemyBody_health:
  "playerHealth (enemyBody env i e st) =
     (if distToPlayer st e < fsize (player st) * 0.6 + fsize e * 0.6 \<and> fsize e \<le> fsize (player st)
        then min (playerHealth st + 10) maxHealth
      else if distToPlayer st e < fsize (player st) * 0.6 + fsize e * 0.6 \<and> invulnTimer st \<le> 0
        then playerHealth st - (if fvariant e = Titan then 60 else 35)
      else playerHealth st)"
  by (simp add: enemyBody_def Let_def resolveCollision_alt)

lemma enemyBody_invuln:
  "invulnTimer (enemyBody env i e st) =
     (if distToPlayer st e < fsize (player st) * 0.6 + fsize e * 0.6 \<and> fsize e \<le> fsize (player st)
        then invulnTimer st
      else if distToPlayer st e < fsize (player st) * 0.6 + fsize e * 0.6 \<and> invulnTimer st \<le> 0
        then 1500
      else invulnTimer st)"
  by (simp add: enemyBody_def Let_def resolveCollision_alt)

lemma enemyBody_sounds:
  "sounds (enemyBody env i e st) =
     (if distToPlayer st e < fsize (player st) * 0.6 + fsize e * 0.6 \<and> fsize e \<le> fsize (player st)
        then Eat # sounds st
      else if distToPlayer st e < fsize (player st) * 0.6 + fsize e * 0.6 \<and> invulnTimer st \<le> 0
        then Hurt # sounds st
      else sounds st)"
  by (simp add: enemyBody_def Let_def resolveCollision_alt)



lemma enemyBody_enemies:
  "enemies (enemyBody env i e st) =
     (let e1 = movedEnemy env e st;
          es1 = (enemies st)[i := e1];
          es2 = (if distToPlayer st e < fsize (player st) * 0.6 + fsize e * 0.6
                    \<and> fsize e \<le> fsize (player st)
                 then splice1 i es1 else es1)
      in if offscreen env e1 then splice1 i es2 else es2)"
  by (simp add: enemyBody_def Let_def resolveCollision_alt pruneOffscreen_def)

lemma splice1_update [simp]: "splice1 i (xs[i := v]) = splice1 i xs"
  by (simp add: splice1_def)

lemma length_splice1: "length (splice1 i xs) = (if i < length xs then length xs - 1 else length xs)"
  by (auto simp: splice1_def)

lemma enemyBody_length:
  "i < length (enemies st) \<Longrightarrow>
     i \<le> length (enemies (enemyBody env i e st)) \<and>
     length (enemies (enemyBody env i e st)) \<le> length (enemies st)"
  by (auto simp: enemyBody_enemies Let_def length_splice1)

lemma enemyLoop_total:
  "n \<le> length (enemies st) \<Longrightarrow> \<exists>st'. enemyLoop env n st = Some st'"
proof (induction n arbitrary: st)
  case 0
  then show ?case by simp
next
  case (Suc n)
  then have lt: "n < length (enemies st)" by simp
  from enemyBody_length [OF lt]
  have "n \<le> length (enemies (enemyBody env n (enemies st ! n) st))" by blast
  from Suc.IH [OF this] lt show ?case
    by (simp add: enemyStep_def)
qed

lemma enemyLoop_invariant:
  assumes "P st"
    and step: "\<And>i s. i < length (enemies s) \<Longrightarrow> P s \<Longrightarrow> P (enemyBody env i (enemies s ! i) s)"
    and "enemyLoop env n st = Some st'"
  shows "P st'"
  using assms(1,3)
proof (induction n arbitrary: st)
  case 0
  then show ?case by simp
next
  case (Suc n)
  show ?case
  proof (cases "n < length (enemies st)")
    case True
    with Suc.prems(2)
    have run: "enemyLoop env n (enemyBody env n (enemies st ! n) st) = Some st'"
      by (simp add: enemyStep_def)
    have "P (enemyBody env n (enemies st ! n) st)"
      using step [OF True Suc.prems(1)] .
    from Suc.IH [OF this run] show ?thesis .
  next
    case False
    with Suc.prems(2) show ?thesis by (simp add: enemyStep_def)
  qed
qed

lemma finishTick_fields [simp]:
  "player (finishTick env st) = player st"
  "enemies (finishTick env st) = enemies st"
  "scoreRef (finishTick env st) = scoreRef st"
  "playerHealth (finishTick env st) = playerHealth st"
  "invulnTimer (finishTick env st) = invulnTimer st"
  "sounds (finishTick env st) = sounds st"
  "shockwaves (finishTick env st) = shockwaves st"
  by (simp_all add: finishTick_def Let_def)

lemma spawnEnemy_fields [simp]:
  "player (spawnEnemy env st) = player st"
  "scoreRef (spawnEnemy env st) = scoreRef st"
  "playerHealth (spawnEnemy env st) = playerHealth st"
  "invulnTimer (spawnEnemy env st) = invulnTimer st"
  "sounds (spawnEnemy env st) = sounds st"
  "length (enemies (spawnEnemy env st)) = Suc (length (enemies st))"
  "butlast (enemies (spawnEnemy env st)) = enemies st"
  by (simp_all add: spawnEnemy_def Let_def)

lemma spawnPhase_fields [simp]:
  "player (spawnPhase env st) = player st"
  "scoreRef (spawnPhase env st) = scoreRef st"
  "playerHealth (spawnPhase env st) = playerHealth st"
  "invulnTimer (spawnPhase env st) = invulnTimer st"
  "sounds (spawnPhase env st) = sounds st"
  by (simp_all add: spawnPhase_def)

lemma tickInvuln_fields [simp]:
  "player (tickInvuln env st) = player st"
  "enemies (tickInvuln env st) = enemies st"
  "scoreRef (tickInvuln env st) = scoreRef st"
  "lastSpawnTime (tickInvuln env st) = lastSpawnTime st"
  "playerHealth (tickInvuln env st) = playerHealth st"
  "sounds (tickInvuln env st) = sounds st"
  "rng (tickInvuln env st) = rng st"
  "idCount (tickInvuln env st) = idCount st"
  by (simp_all add: tickInvuln_def)

lemma regenHealth_fields [simp]:
  "player (regenHealth st) = player st"
  "enemies (regenHealth st) = enemies st"
  "scoreRef (regenHealth st) = scoreRef st"
  "lastSpawnTime (regenHealth st) = lastSpawnTime st"
  "invulnTimer (regenHealth st) = invulnTimer st"
  "sounds (regenHealth st) = sounds st"
  "rng (regenHealth st) = rng st"
  "idCount (regenHealth st) = idCount st"
  by (simp_all add: regenHealth_def)

lemma beforeLoop_fields [simp]:
  "player (beforeLoop env st) = player st"
  "scoreRef (beforeLoop env st) = scoreRef st"
  "playerHealth (beforeLoop env st) = playerHealth (regenHealth (tickInvuln env st))"
  "invulnTimer (beforeLoop env st) = invulnTimer (tickInvuln env st)"
  "sounds (beforeLoop env st) = sounds st"
  by (simp_all add: beforeLoop_def)

lemma beforeLoop_length:
  "length (enemies (beforeLoop env st)) =
     (if millis env - lastSpawnTime st
           > real_of_int (activeSpawnInterval (scoreRef st) (length (enemies st)))
      then length (enemies st) + 1 else length (enemies st))"
  by (simp add: beforeLoop_def spawnPhase_def)

lemma updateGameLogic_invariant:
  assumes "P (beforeLoop env st)"
    and "\<And>i s. i < length (enemies s) \<Longrightarrow> P s \<Longrightarrow> P (enemyBody env i (enemies s ! i) s)"
    and "\<And>s. P s \<Longrightarrow> P (finishTick env s)"
  shows "\<exists>st'. updateGameLogic env st = Some st' \<and> P st'"
proof -
  obtain s where run: "enemyLoop env (length (enemies (beforeLoop env st))) (beforeLoop env st) = Some s"
    using enemyLoop_total [of "length (enemies (beforeLoop env st))" "beforeLoop env st" env]
    by auto
  have "P s"
    using enemyLoop_invariant [where P = P, OF assms(1) _ run] assms(2) by blast
  then have "P (finishTick env s)" by (rule assms(3))
  with run show ?thesis by (simp add: updateGameLogic_def)
qed

lemma p5_dist_same_y: "p5_dist x1 y x2 y = \<bar>x2 - x1\<bar>"
  by (simp add: p5_dist_def)

lemma regenHealth_health:
  "playerHealth (regenHealth st) =
     (if playerHealth st < 100 \<and> invulnTimer st \<le> 0
      then min (playerHealth st + 0.05) 100 else playerHealth st)"
  by (simp add: regenHealth_def maxHealth_def)

lemma tickInvuln_invuln:
  "invulnTimer (tickInvuln env st) =
     (if 0 < invulnTimer st then invulnTimer st - deltaTime env else invulnTimer st)"
  by (simp add: tickInvuln_def)

lemma distToPlayer_beforeLoop [simp]: "distToPlayer (beforeLoop env st) e = distToPlayer st e"
  by (simp add: distToPlayer_def)

lemma demoEnv_sel [simp]:
  "millis demoEnv = 0" "deltaTime demoEnv = 16" "width demoEnv = 800" "height demoEnv = 800"
  "sf demoEnv = 1" "rand demoEnv k = 1 / 2" "noise demoEnv t = 1 / 2"
  by (simp_all add: demoEnv_def)

lemma demoFish_sel [simp]:
  "fx (demoFish v x sz) = x" "fy (demoFish v x sz) = 0" "fsize (demoFish v x sz) = sz"
  "fvx (demoFish v x sz) = 0" "fvy (demoFish v x sz) = 0" "fspeed (demoFish v x sz) = 0"
  "fvariant (demoFish v x sz) = v" "fnoiseOffset (demoFish v x sz) = 0"
  by (simp_all add: demoFish_def)

lemma demoSession_sel [simp]:
  "player (demoSession pSize health timer es) = demoFish Player 0 pSize"
  "enemies (demoSession pSize health timer es) = es"
  "playerHealth (demoSession pSize health timer es) = health"
  "invulnTimer (demoSession pSize health timer es) = timer"
  "sounds (demoSession pSize health timer es) = []"
  "scoreRef (demoSession pSize health timer es) = 0"
  "lastSpawnTime (demoSession pSize health timer es) = 0"
  "screenShake (demoSession pSize health timer es) = 0"
  by (simp_all add: demoSession_def)

lemma demo_dist [simp]:
  "distToPlayer (demoSession pSize health timer es) (demoFish v x sz) = \<bar>x\<bar>"
  by (simp add: distToPlayer_def p5_dist_same_y)

lemma demo_beforeLoop_enemies [simp]:
  "enemies (beforeLoop demoEnv (demoSession pSize health timer es)) = es"
  by (simp add: beforeLoop_def spawnPhase_def activeSpawnInterval_def Let_def)

lemma tick_playing: "tick PLAYING env st = updateGameLogic env st"
  by (simp add: tick_def)

lemma tick_idle: "gameState \<noteq> PLAYING \<Longrightarrow> tick gameState env st = Some st"
  by (simp add: tick_def)

lemma tick_single:
  "enemies (beforeLoop env st) = [e] \<Longrightarrow>
     updateGameLogic env st = Some (finishTick env (enemyBody env 0 e (beforeLoop env st)))"
  by (simp add: updateGameLogic_def enemyStep_def)

lemma demo_tick_single:
  "updateGameLogic demoEnv (demoSession pSize health timer [e]) =
     Some (finishTick demoEnv (enemyBody demoEnv 0 e (beforeLoop demoEnv (demoSession pSize health timer [e]))))"
  by (rule tick_single) simp

section \<open>Evaluating a tick with one enemy\<close>

lemma demo_tick_field:
  "map_option f (updateGameLogic demoEnv (demoSession pSize health timer [e])) =
     Some (f (finishTick demoEnv
        (enemyBody demoEnv 0 e (beforeLoop demoEnv (demoSession pSize health timer [e])))))"
  by (simp add: demo_tick_single)

lemma p5_atan2_right: "0 < x \<Longrightarrow> p5_atan2 0 x = 0"
  by (simp add: p5_atan2_def)

lemma p5_lerp_same [simp]: "p5_lerp a a t = a"
  by (simp add: p5_lerp_def)

lemma demo_chase_rest:
  "0 < - x \<Longrightarrow> pl = demoFish Player 0 pSize
     \<Longrightarrow> moveEnemy (chase demoEnv pl (demoFish v x sz)) = demoFish v x sz"
  by (simp add: chase_def moveEnemy_def Let_def p5_atan2_right demoFish_def)

lemma demo_wander_rest: "moveEnemy (wander demoEnv (demoFish v x sz)) = demoFish v x sz"
  by (simp add: wander_def moveEnemy_def Let_def demoFish_def p5_map_def)

section \<open>The pull of a titan\<close>

lemma enemyBody_player_pos:
  "fx (player (enemyBody env i e st)) = fx (player (steered env e st))"
  "fy (player (enemyBody env i e st)) = fy (player (steered env e st))"
  by (simp_all add: enemyBody_def Let_def resolveCollision_alt)

lemma steered_player:
  "player (steered env e st) =
     (if titanPulls env e st
      then (player st)\<lparr>
             fx := fx (player st)
                   + cos (p5_atan2 (fy e - fy (player st)) (fx e - fx (player st))) * (0.4 * sf env),
             fy := fy (player st)
                   + sin (p5_atan2 (fy e - fy (player st)) (fx e - fx (player st))) * (0.4 * sf env) \<rparr>
      else player st)"
  by (simp add: steered_def titanPull_def dangerUpdate_def chasing_def actuallyPredator_def
      detectionRange_def titanPulls_def Let_def)

lemma steered_shake:
  "screenShake (steered env e st) =
     (if titanPulls env e st \<and> distToPlayer st e < 200 * sf env
      then screenShake st + 0.2 else screenShake st)"
  by (simp add: steered_def titanPull_def dangerUpdate_def chasing_def actuallyPredator_def
      detectionRange_def titanPulls_def Let_def)

section \<open>The enemy list along the loop\<close>

lemma fixedPart_movedEnemy [simp]: "fixedPart (movedEnemy env e st) = fixedPart e"
  by (simp add: fixedPart_def)

lemma subseq_splice1: "subseq (splice1 i xs) xs"
proof (induction xs arbitrary: i)
  case Nil
  show ?case by (simp add: splice1_def)
next
  case (Cons x xs)
  show ?case
  proof (cases i)
    case 0
    have "subseq xs (x # xs)" by (rule list_emb_Cons) simp
    with 0 show ?thesis by (simp add: splice1_def)
  next
    case (Suc j)
    with Cons.IH [of j] show ?thesis by (simp add: splice1_def)
  qed
qed

lemma map_splice1: "map f (splice1 i xs) = splice1 i (map f xs)"
  by (simp add: splice1_def take_map drop_map)

lemma map_fixedPart_update:
  "i < length es \<Longrightarrow> fixedPart e1 = fixedPart (es ! i)
     \<Longrightarrow> map fixedPart (es[i := e1]) = map fixedPart es"
  by (simp add: map_update list_update_same_conv)

lemma enemyBody_fixed:
  assumes "i < length (enemies st)"
  shows "subseq (map fixedPart (enemies (enemyBody env i (enemies st ! i) st)))
           (map fixedPart (enemies st))"
proof -
  let ?es = "enemies st"
  let ?e1 = "movedEnemy env (?es ! i) st"
  have upd: "map fixedPart (?es[i := ?e1]) = map fixedPart ?es"
    using assms by (simp add: map_fixedPart_update)
  have one: "subseq (splice1 i (map fixedPart ?es)) (map fixedPart ?es)"
    by (rule subseq_splice1)
  have two: "subseq (splice1 i (splice1 i (map fixedPart ?es))) (map fixedPart ?es)"
    using subseq_splice1 [of i "splice1 i (map fixedPart ?es)"] one
    by (rule subseq_order.trans)
  show ?thesis
    using upd one two by (simp add: enemyBody_enemies Let_def map_splice1)
qed

section \<open>Shockwaves frame by frame\<close>

lemma shockwaveLoop_filter:
  "n \<le> length sws \<Longrightarrow>
     shockwaveLoop scale n sws =
       Some (filter (\<lambda>sw. \<not> shockwaveGone sw) (map (updateShockwave scale) (take n sws))
             @ drop n sws)"
proof (induction n arbitrary: sws)
  case 0
  show ?case by simp
next
  case (Suc n)
  then have lt: "n < length sws" by simp
  let ?sw = "updateShockwave scale (sws ! n)"
  let ?next = "if shockwaveGone ?sw then splice1 n (sws[n := ?sw]) else sws[n := ?sw]"
  have step: "shockwaveStep scale n sws = Some ?next"
    using lt by (simp add: shockwaveStep_def Let_def)
  have len: "n \<le> length ?next"
    using lt by (auto simp: length_splice1)
  have tk: "take n ?next = take n sws"
    using lt by (simp add: splice1_def)
  have dr: "drop n ?next = (if shockwaveGone ?sw then [] else [?sw]) @ drop (Suc n) sws"
    using lt by (simp add: splice1_def Cons_nth_drop_Suc [symmetric] upd_conv_take_nth_drop)
  have "shockwaveLoop scale (Suc n) sws = shockwaveLoop scale n ?next"
    using step by simp
  also have "\<dots> = Some (filter (\<lambda>sw. \<not> shockwaveGone sw) (map (updateShockwave scale) (take n ?next))
             @ drop n ?next)"
    using len by (rule Suc.IH)
  also have "\<dots> = Some (filter (\<lambda>sw. \<not> shockwaveGone sw)
                 (map (updateShockwave scale) (take (Suc n) sws)) @ drop (Suc n) sws)"
    using lt by (simp only: tk dr) (simp add: take_Suc_conv_app_nth)
  finally show ?case .
qed

lemma drawShockwaves_filter:
  "drawShockwaves scale sws =
     Some (filter (\<lambda>sw. \<not> shockwaveGone sw) (map (updateShockwave scale) sws))"
  by (simp add: drawShockwaves_def shockwaveLoop_filter)

lemma updateShockwave_iter:
  "maxRadius ((updateShockwave scale ^^ n) sw) = maxRadius sw"
  "salpha ((updateShockwave scale ^^ n) sw) = salpha sw - 10 * real n"
  "lineWidth ((updateShockwave scale ^^ n) sw) = lineWidth sw * 0.9 ^ n"
  by (induction n) (simp_all add: updateShockwave_def algebra_simps)

lemma radius_closed_form:
  "currentRadius ((updateShockwave scale ^^ n) sw) =
     (maxRadius sw + 20 / 3 * scale)
       - (maxRadius sw + 20 / 3 * scale - currentRadius sw) * 0.85 ^ n"
proof (induction n)
  case 0
  show ?case by simp
next
  case (Suc n)
  have "currentRadius ((updateShockwave scale ^^ Suc n) sw) =
      0.85 * currentRadius ((updateShockwave scale ^^ n) sw) + 0.15 * maxRadius sw + scale"
    by (simp add: updateShockwave_def updateShockwave_iter field_simps)
  also have "\<dots> = (maxRadius sw + 20 / 3 * scale)
       - (maxRadius sw + 20 / 3 * scale - currentRadius sw) * 0.85 ^ Suc n"
    by (simp add: Suc.IH field_simps)
  finally show ?case .
qed

lemma radius_strictly_increasing:
  assumes "0 < scale" and "currentRadius sw < maxRadius sw + 20 / 3 * scale"
  shows "currentRadius ((updateShockwave scale ^^ n) sw)
           < currentRadius ((updateShockwave scale ^^ Suc n) sw)"
proof -
  let ?gap = "maxRadius sw + 20 / 3 * scale - currentRadius sw"
  have gap: "0 < ?gap" using assms(2) by simp
  have "(0.85::real) ^ Suc n < 0.85 ^ n" by simp
  with gap have "?gap * 0.85 ^ Suc n < ?gap * 0.85 ^ n"
    by (simp only: mult_strict_left_mono)
  then show ?thesis
    by (simp only: radius_closed_form)
qed

lemma frames_single_alive:
  "(\<And>k. 1 \<le> k \<Longrightarrow> k \<le> n \<Longrightarrow> \<not> shockwaveGone ((updateShockwave scale ^^ k) sw))
     \<Longrightarrow> shockwaveFrames scale n [sw] = Some [(updateShockwave scale ^^ n) sw]"
proof (induction n arbitrary: sw)
  case 0
  show ?case by simp
next
  case (Suc n)
  have first: "\<not> shockwaveGone (updateShockwave scale sw)"
    using Suc.prems [of 1] by simp
  have later: "\<not> shockwaveGone ((updateShockwave scale ^^ k) (updateShockwave scale sw))"
    if "1 \<le> k" "k \<le> n" for k
    using Suc.prems [of "Suc k"] that by (simp add: funpow_swap1)
  have "shockwaveFrames scale (Suc n) [sw] = shockwaveFrames scale n [updateShockwave scale sw]"
    using first by (simp add: drawShockwaves_filter)
  also have "\<dots> = Some [(updateShockwave scale ^^ n) (updateShockwave scale sw)]"
    using later by (rule Suc.IH)
  finally show ?case by (simp add: funpow_swap1)
qed

lemma shockwaveFrames_add:
  "shockwaveFrames scale (m + n) sws =
     (case shockwaveFrames scale m sws of None \<Rightarrow> None
      | Some sws' \<Rightarrow> shockwaveFrames scale n sws')"
  by (induction m arbitrary: sws) (simp_all split: option.splits)

lemma demo_spawnShockwave:
  "shockwaves (spawnShockwave demoEnv 0 0 (0, 255, 255) (demoSession 20 100 0 []))
     = [demoShockwave]"
  by (simp add: spawnShockwave_def demoSession_def demoShockwave_def random_between_def)

section \<open>The loop, iteration by iteration\<close>







section \<open>Spawn bookkeeping\<close>

lemma spawn_counters [simp]:
  "idCount (consumeEnemy env e i st) = idCount st"
  "idCount (damagePlayer env e st) = idCount st"
  "idCount (steered env e st) = idCount st"
  "idCount (pruneOffscreen env e i st) = idCount st"
  "idCount (finishTick env st) = idCount st"
  "lastSpawnTime (finishTick env st) = lastSpawnTime st"
  by (simp_all add: consumeEnemy_def spawnShockwave_def damagePlayer_def steered_def
      titanPull_def dangerUpdate_def pruneOffscreen_def finishTick_def Let_def)

lemma enemyBody_spawn_counters:
  "idCount (enemyBody env i e st) = idCount st"
  "lastSpawnTime (enemyBody env i e st) = lastSpawnTime st"
  by (simp_all add: enemyBody_def Let_def resolveCollision_alt)

lemma activeSpawnInterval_floor: "300 \<le> activeSpawnInterval score n"
  by (auto simp: activeSpawnInterval_def Let_def max_def min_def)

lemma distToPlayer_ge_dx: "\<bar>fx e - fx (player st)\<bar> \<le> distToPlayer st e"
  by (simp add: distToPlayer_def p5_dist_def)

lemma demo_spawn:
  "enemies (beforeLoop (demoEnv\<lparr> millis := 1000 \<rparr>) (demoSession 20 100 0 [])) = [demoSpawned]"
  by (simp add: beforeLoop_def spawnPhase_def activeSpawnInterval_def spawnEnemy_def Let_def
      isPrey_def spawnVariant_def variantSize_def variantColors_def variantSpeed_def
      random_between_def random_upto_def random_choice_def p5_constrain_def
      demoSession_def demoEnv_def demoFish_def demoSpawned_def regenHealth_def tickInvuln_def
      maxHealth_def)

lemma demo_spawn_survives:
  "map_option (\<lambda>s. map fixedPart (enemies s))
     (updateGameLogic (demoEnv\<lparr> millis := 1000 \<rparr>) (demoSession 20 100 0 []))
     = Some [fixedPart demoSpawned]"
proof -
  let ?env = "demoEnv\<lparr> millis := 1000 \<rparr>"
  let ?b = "beforeLoop ?env (demoSession 20 100 0 [])"
  have far: "\<not> distToPlayer ?b demoSpawned < fsize (player ?b) * 0.6 + fsize demoSpawned * 0.6"
  proof -
    have "\<bar>fx demoSpawned - fx (player ?b)\<bar> \<le> distToPlayer ?b demoSpawned"
      by (rule distToPlayer_ge_dx)
    then have "822 \<le> distToPlayer ?b demoSpawned"
      by (simp add: demoSpawned_def)
    then show ?thesis by (simp add: demoSpawned_def)
  qed
  have calm: "\<not> chasing ?env (player ?b) demoSpawned (distToPlayer ?b demoSpawned)"
    by (simp add: chasing_def actuallyPredator_def demoSpawned_def)
  have inside: "\<not> offscreen ?env (movedEnemy ?env demoSpawned ?b)"
    using calm
    by (simp add: movedEnemy_def offscreen_def moveEnemy_def wander_def Let_def p5_map_def
        p5_lerp_def demoSpawned_def)
  have "enemies (enemyBody ?env 0 demoSpawned ?b) = [movedEnemy ?env demoSpawned ?b]"
    using far inside by (simp add: enemyBody_enemies Let_def demo_spawn)
  then show ?thesis
    by (simp add: tick_single [OF demo_spawn])
qed

section \<open>Consuming an enemy\<close>



section \<open>Variant selection of the spawner\<close>

lemma predatorVariant_bands:
  "(predatorVariant r1 = Hunter \<longleftrightarrow> r1 < 0.35)
   \<and> (predatorVariant r1 = Dasher \<longleftrightarrow> 0.35 \<le> r1 \<and> r1 < 0.65)
   \<and> (predatorVariant r1 = Viper \<longleftrightarrow> 0.65 \<le> r1 \<and> r1 < 0.85)
   \<and> (predatorVariant r1 = Titan \<longleftrightarrow> 0.85 \<le> r1)"
  by (auto simp: predatorVariant_def)

lemma predatorVariant_not_Prey: "predatorVariant r1 \<noteq> Prey"
  by (simp add: predatorVariant_def)

lemma spawnEnemy_variant:
  "fvariant (last (enemies (spawnEnemy env st)))
     = spawnVariant (rand env (rng st)) (rand env (rng st + 1))"
  by (simp add: spawnEnemy_def Let_def)

text \<open>C2, as the code has it. The variant of the spawned enemy is decided by the first
  draw \<open>r0\<close> and, in the predator branch, by the draw \<open>r1\<close>. The prey branch is taken when
  \<open>r0 > 0.4\<close>, that is for 60% of the draws, and the predator branch when \<open>r0 \<le> 0.4\<close>, for
  40% of them. Within the predator branch the cumulative bands of \<open>r1\<close> select hunter below
  0.35 (35%), dasher from 0.35 to 0.65 (30%), viper from 0.65 to 0.85 (20%) and titan from
  0.85 on (15%).\<close>

theorem spawn_variant_bands:
  "fvariant (last (enemies (spawnEnemy env st)))
      = spawnVariant (rand env (rng st)) (rand env (rng st + 1))
   \<and> (spawnVariant r0 r1 = Prey \<longleftrightarrow> 0.4 < r0)
   \<and> (spawnVariant r0 r1 = Hunter \<longleftrightarrow> r0 \<le> 0.4 \<and> r1 < 0.35)
   \<and> (spawnVariant r0 r1 = Dasher \<longleftrightarrow> r0 \<le> 0.4 \<and> 0.35 \<le> r1 \<and> r1 < 0.65)
   \<and> (spawnVariant r0 r1 = Viper \<longleftrightarrow> r0 \<le> 0.4 \<and> 0.65 \<le> r1 \<and> r1 < 0.85)
   \<and> (spawnVariant r0 r1 = Titan \<longleftrightarrow> r0 \<le> 0.4 \<and> 0.85 \<le> r1)"
proof -
  have prey: "spawnVariant r0 r1 = Prey \<longleftrightarrow> 0.4 < r0"
    by (simp add: spawnVariant_def isPrey_def predatorVariant_not_Prey)
  have other: "spawnVariant r0 r1 = v \<longleftrightarrow> r0 \<le> 0.4 \<and> predatorVariant r1 = v"
    if "v \<noteq> Prey" for v
    using that by (auto simp: spawnVariant_def isPrey_def)
  show ?thesis
    using spawnEnemy_variant [of env st] prey other [of Hunter] other [of Dasher]
      other [of Viper] other [of Titan] predatorVariant_bands [of r1]
    by simp
qed

theorem spawn_variant_bands_witness:
  "spawnVariant (3 / 10) (9 / 10) = Titan \<and> spawnVariant (3 / 10) (1 / 10) = Hunter
   \<and> spawnVariant (3 / 10) (1 / 2) = Dasher \<and> spawnVariant (3 / 10) (7 / 10) = Viper
   \<and> spawnVariant (7 / 10) (9 / 10) = Prey"
  using spawn_variant_bands [of demoEnv "demoSession 20 100 0 []" "3 / 10" "9 / 10"]
    spawn_variant_bands [of demoEnv "demoSession 20 100 0 []" "3 / 10" "1 / 10"]
    spawn_variant_bands [of demoEnv "demoSession 20 100 0 []" "3 / 10" "1 / 2"]
    spawn_variant_bands [of demoEnv "demoSession 20 100 0 []" "3 / 10" "7 / 10"]
    spawn_variant_bands [of demoEnv "demoSession 20 100 0 []" "7 / 10" "9 / 10"]
  by simp

text \<open>The draw 0.5 lies in every band of length 0.6 inside \<open>[0, 1)\<close>, and yet it spawns
  prey: the predator branch does not have probability 60%.\<close>

theorem spawn_branch_counterexample:
  "isPrey (1 / 2) \<and> spawnVariant (1 / 2) (1 / 10) = Prey"
  by (simp add: isPrey_def spawnVariant_def)

section \<open>Health\<close>

text \<open>C3, as the code has it. After every tick the health is at most 100 when it was
  before. It is not kept above 0: a hit subtracts 35 or 60 with no clamp. The passive
  regeneration of 0.05 per tick is applied only when the invulnerability timer, after this
  tick's decrement, is at most 0; and in a tick in which that timer is still positive and
  no enemy is eaten, the health does not increase. Eating restores 10 health whatever the
  timer.\<close>

theorem health_bounds:
  "\<exists>st'. updateGameLogic env st = Some st'
     \<and> (playerHealth st \<le> 100 \<longrightarrow> playerHealth st' \<le> 100)
     \<and> playerHealth (regenHealth (tickInvuln env st)) =
         (if playerHealth st < 100 \<and> invulnTimer (tickInvuln env st) \<le> 0
          then min (playerHealth st + 0.05) 100 else playerHealth st)
     \<and> (0 < invulnTimer (tickInvuln env st)
          \<and> count_list (sounds st') Eat = count_list (sounds st) Eat
        \<longrightarrow> playerHealth st' \<le> playerHealth st)"
proof -
  let ?b = "beforeLoop env st"
  let ?P = "\<lambda>s::Session.
      (playerHealth st \<le> 100 \<longrightarrow> playerHealth s \<le> 100)
      \<and> count_list (sounds st) Eat \<le> count_list (sounds s) Eat
      \<and> (count_list (sounds s) Eat = count_list (sounds st) Eat
           \<longrightarrow> playerHealth s \<le> playerHealth ?b)"
  have regen: "playerHealth (regenHealth (tickInvuln env st)) =
         (if playerHealth st < 100 \<and> invulnTimer (tickInvuln env st) \<le> 0
          then min (playerHealth st + 0.05) 100 else playerHealth st)"
    by (simp add: regenHealth_health)
  have start: "?P ?b"
    by (simp add: regenHealth_health)
  have "\<exists>st'. updateGameLogic env st = Some st' \<and> ?P st'"
  proof (rule updateGameLogic_invariant [where P = ?P, OF start])
    fix j s
    assume "j < length (enemies s)" and "?P s"
    then show "?P (enemyBody env j (enemies s ! j) s)"
      by (auto simp: enemyBody_sounds enemyBody_health maxHealth_def)
  next
    fix s assume "?P s" then show "?P (finishTick env s)" by simp
  qed
  then obtain st' where run: "updateGameLogic env st = Some st'" and inv: "?P st'" by blast
  have quiet: "playerHealth st' \<le> playerHealth st"
    if "0 < invulnTimer (tickInvuln env st)
        \<and> count_list (sounds st') Eat = count_list (sounds st) Eat"
  proof -
    from that inv have "playerHealth st' \<le> playerHealth ?b" by blast
    moreover from that have "playerHealth ?b = playerHealth st"
      by (simp add: regenHealth_health)
    ultimately show ?thesis by simp
  qed
  from run inv regen quiet show ?thesis by blast
qed

theorem health_bounds_witness:
  "playerHealth (demoSession 20 99.99 0 [demoFish Prey 400 10]) \<le> 100
   \<and> (\<exists>st'. updateGameLogic demoEnv (demoSession 20 99.99 0 [demoFish Prey 400 10]) = Some st'
         \<and> playerHealth st' \<le> 100)
   \<and> 0 < invulnTimer (tickInvuln demoEnv (demoSession 20 50 700 [demoFish Prey 400 10]))
   \<and> (\<exists>st'. updateGameLogic demoEnv (demoSession 20 50 700 [demoFish Prey 400 10]) = Some st'
         \<and> count_list (sounds st') Eat = 0 \<and> playerHealth st' \<le> 50)"
proof -
  let ?full = "demoSession 20 99.99 0 [demoFish Prey 400 10]"
  let ?safe = "demoSession 20 50 700 [demoFish Prey 400 10]"
  have h1: "playerHealth ?full \<le> 100" by simp
  have h2: "0 < invulnTimer (tickInvuln demoEnv ?safe)" by (simp add: tickInvuln_invuln)
  have quiet: "map_option sounds (updateGameLogic demoEnv ?safe) = Some []"
    by (simp add: demo_tick_field enemyBody_sounds)
  from health_bounds [of demoEnv ?full] h1
  have one: "\<exists>st'. updateGameLogic demoEnv ?full = Some st' \<and> playerHealth st' \<le> 100"
    by auto
  from health_bounds [of demoEnv ?safe] h2 quiet
  have two: "\<exists>st'. updateGameLogic demoEnv ?safe = Some st'
         \<and> count_list (sounds st') Eat = 0 \<and> playerHealth st' \<le> 50"
    by auto
  from h1 h2 one two show ?thesis by blast
qed

text \<open>The claim as stated fails twice. A hunter that hits a player of health 10 leaves
  the health at -24.95 (the regeneration of 0.05, then the hit of 35): below 0. And a
  player who eats during the invulnerability window (timer 1000, then 984) gains 10
  health, from 50 to 60.\<close>

theorem health_range_counterexample:
  "map_option playerHealth
     (updateGameLogic demoEnv (demoSession 20 10 0 [demoFish Hunter 10 30])) = Some (- 24.95)
   \<and> map_option playerHealth
     (updateGameLogic demoEnv (demoSession 20 50 1000 [demoFish Prey 5 10])) = Some 60
   \<and> map_option invulnTimer
     (updateGameLogic demoEnv (demoSession 20 50 1000 [demoFish Prey 5 10])) = Some 984"
  by (simp add: demo_tick_field enemyBody_health enemyBody_invuln regenHealth_health
      tickInvuln_invuln maxHealth_def)

section \<open>Damage and the invulnerability timer\<close>

text \<open>C4. In the iteration for an enemy that collides with the player and is larger than
  the player, the health decreases only if the invulnerability timer is at most 0; the
  damage is then exactly 60 for a titan and exactly 35 for every other variant, whatever
  the enemy's size, the timer becomes exactly 1500 and the hurt sound fires; otherwise
  health, timer and sounds are unchanged. Over a whole tick (with a frame time that is
  not negative): when the hurt sound fired, the timer ends at exactly 1500; when it did
  not, the timer went down by the frame time if it was positive and stayed as it was
  otherwise, so it never went up.\<close>

theorem damage_and_invulnerability:
  "(i < length (enemies st) \<and> 0 < sf env
      \<and> distToPlayer st (enemies st ! i) < 0.6 * (fsize (player st) + fsize (enemies st ! i))
      \<and> fsize (player st) < fsize (enemies st ! i)
    \<longrightarrow> (\<exists>st'. enemyStep env i st = Some st' \<and>
           (if invulnTimer st \<le> 0
            then playerHealth st' = playerHealth st - (if fvariant (enemies st ! i) = Titan then 60 else 35)
               \<and> invulnTimer st' = 1500 \<and> sounds st' = Hurt # sounds st
            else playerHealth st' = playerHealth st
               \<and> invulnTimer st' = invulnTimer st \<and> sounds st' = sounds st)))
   \<and> (0 \<le> deltaTime env
    \<longrightarrow> (\<exists>st'. updateGameLogic env st = Some st' \<and>
           (if count_list (sounds st') Hurt = count_list (sounds st) Hurt
            then invulnTimer st' =
                   (if 0 < invulnTimer st then invulnTimer st - deltaTime env else invulnTimer st)
               \<and> invulnTimer st' \<le> invulnTimer st
            else invulnTimer st' = 1500)))"
proof (intro conjI impI)
  assume a: "i < length (enemies st) \<and> 0 < sf env
      \<and> distToPlayer st (enemies st ! i) < 0.6 * (fsize (player st) + fsize (enemies st ! i))
      \<and> fsize (player st) < fsize (enemies st ! i)"
  let ?e = "enemies st ! i"
  from a have hit: "distToPlayer st ?e < fsize (player st) * 0.6 + fsize ?e * 0.6"
    by (simp add: algebra_simps)
  from a have big: "\<not> fsize ?e \<le> fsize (player st)" by simp
  from a have "enemyStep env i st = Some (enemyBody env i ?e st)"
    by (simp add: enemyStep_def)
  then show "\<exists>st'. enemyStep env i st = Some st' \<and>
           (if invulnTimer st \<le> 0
            then playerHealth st' = playerHealth st - (if fvariant ?e = Titan then 60 else 35)
               \<and> invulnTimer st' = 1500 \<and> sounds st' = Hurt # sounds st
            else playerHealth st' = playerHealth st
               \<and> invulnTimer st' = invulnTimer st \<and> sounds st' = sounds st)"
    using hit big by (simp add: enemyBody_health enemyBody_invuln enemyBody_sounds)
next
  assume dt: "0 \<le> deltaTime env"
  let ?b = "beforeLoop env st"
  let ?P = "\<lambda>s::Session.
      (count_list (sounds s) Hurt = count_list (sounds st) Hurt \<and> invulnTimer s = invulnTimer ?b)
      \<or> (count_list (sounds s) Hurt > count_list (sounds st) Hurt \<and> invulnTimer s = 1500)"
  have start: "?P ?b" by simp
  have "\<exists>st'. updateGameLogic env st = Some st' \<and> ?P st'"
  proof (rule updateGameLogic_invariant [where P = ?P, OF start])
    fix j s
    assume "j < length (enemies s)" and "?P s"
    then show "?P (enemyBody env j (enemies s ! j) s)"
      by (auto simp: enemyBody_sounds enemyBody_invuln)
  next
    fix s assume "?P s" then show "?P (finishTick env s)" by simp
  qed
  then obtain st' where run: "updateGameLogic env st = Some st'" and inv: "?P st'" by blast
  have timer: "invulnTimer ?b =
      (if 0 < invulnTimer st then invulnTimer st - deltaTime env else invulnTimer st)"
    by (simp add: tickInvuln_invuln)
  with dt have "invulnTimer ?b \<le> invulnTimer st" by simp
  with inv timer run
  show "\<exists>st'. updateGameLogic env st = Some st' \<and>
           (if count_list (sounds st') Hurt = count_list (sounds st) Hurt
            then invulnTimer st' =
                   (if 0 < invulnTimer st then invulnTimer st - deltaTime env else invulnTimer st)
               \<and> invulnTimer st' \<le> invulnTimer st
            else invulnTimer st' = 1500)"
    by auto
qed

theorem damage_and_invulnerability_witness:
  "(0::nat) < length (enemies (demoSession 20 100 0 [demoFish Titan 10 50]))
   \<and> 0 < sf demoEnv
   \<and> distToPlayer (demoSession 20 100 0 [demoFish Titan 10 50]) (demoFish Titan 10 50)
       < 0.6 * (20 + 50)
   \<and> (\<exists>st'. enemyStep demoEnv 0 (demoSession 20 100 0 [demoFish Titan 10 50]) = Some st'
         \<and> playerHealth st' = 40 \<and> invulnTimer st' = 1500 \<and> sounds st' = [Hurt])
   \<and> (\<exists>st'. enemyStep demoEnv 0 (demoSession 20 100 700 [demoFish Hunter 10 50]) = Some st'
         \<and> playerHealth st' = 100 \<and> invulnTimer st' = 700 \<and> sounds st' = [])
   \<and> 0 \<le> deltaTime demoEnv
   \<and> (\<exists>st'. updateGameLogic demoEnv (demoSession 20 100 700 [demoFish Hunter 10 50]) = Some st'
         \<and> sounds st' = [] \<and> invulnTimer st' = 684)
   \<and> (\<exists>st'. updateGameLogic demoEnv (demoSession 20 100 0 [demoFish Hunter 10 50]) = Some st'
         \<and> sounds st' = [Hurt] \<and> invulnTimer st' = 1500)"
proof -
  let ?hit = "demoSession 20 100 0 [demoFish Titan 10 50]"
  let ?safe = "demoSession 20 100 700 [demoFish Hunter 10 50]"
  let ?open = "demoSession 20 100 0 [demoFish Hunter 10 50]"
  have dt: "0 \<le> deltaTime demoEnv" by simp
  have pre: "0 < length (enemies s) \<and> 0 < sf demoEnv
      \<and> distToPlayer s (enemies s ! 0) < 0.6 * (fsize (player s) + fsize (enemies s ! 0))
      \<and> fsize (player s) < fsize (enemies s ! 0)"
    if "s = ?hit \<or> s = ?safe" for s
    using that by auto
  from damage_and_invulnerability [of 0 ?hit demoEnv] pre [of ?hit]
  have one: "\<exists>st'. enemyStep demoEnv 0 ?hit = Some st'
         \<and> playerHealth st' = 40 \<and> invulnTimer st' = 1500 \<and> sounds st' = [Hurt]"
    by simp
  from damage_and_invulnerability [of 0 ?safe demoEnv] pre [of ?safe]
  have two: "\<exists>st'. enemyStep demoEnv 0 ?safe = Some st'
         \<and> playerHealth st' = 100 \<and> invulnTimer st' = 700 \<and> sounds st' = []"
    by simp
  have s3: "map_option sounds (updateGameLogic demoEnv ?safe) = Some []"
    by (simp add: demo_tick_field enemyBody_sounds tickInvuln_invuln)
  have s4: "map_option sounds (updateGameLogic demoEnv ?open) = Some [Hurt]"
    by (simp add: demo_tick_field enemyBody_sounds tickInvuln_invuln)
  from damage_and_invulnerability [of 0 ?safe demoEnv] dt s3
  have three: "\<exists>st'. updateGameLogic demoEnv ?safe = Some st'
         \<and> sounds st' = [] \<and> invulnTimer st' = 684"
    by auto
  from damage_and_invulnerability [of 0 ?open demoEnv] dt s4
  have four: "\<exists>st'. updateGameLogic demoEnv ?open = Some st'
         \<and> sounds st' = [Hurt] \<and> invulnTimer st' = 1500"
    by auto
  from one two three four dt pre [of ?hit] show ?thesis by simp
qed

section \<open>Titan\<close>

text \<open>C5, as the code has it. In the iteration for enemy \<open>e\<close> the player's position moves
  exactly when \<open>e\<close> is a titan, is larger than the player and is nearer than the detection
  radius of a titan, 500 times the scale factor: the whole radius in which it chases, not a
  closer sub-radius. The player is then displaced by 0.4 times the scale factor in the
  direction of the titan. The screen shake grows by 0.2 only when, in addition, the
  distance is below 200 times the scale factor, which is less than the detection
  radius.\<close>

theorem titan_pull_radius:
  "fx (player (enemyBody env i e st)) =
     (if titanPulls env e st
      then fx (player st)
           + cos (p5_atan2 (fy e - fy (player st)) (fx e - fx (player st))) * (0.4 * sf env)
      else fx (player st))
   \<and> fy (player (enemyBody env i e st)) =
     (if titanPulls env e st
      then fy (player st)
           + sin (p5_atan2 (fy e - fy (player st)) (fx e - fx (player st))) * (0.4 * sf env)
      else fy (player st))
   \<and> screenShake (steered env e st) =
     (if titanPulls env e st \<and> distToPlayer st e < 200 * sf env
      then screenShake st + 0.2 else screenShake st)
   \<and> (titanPulls env e st \<longleftrightarrow>
        fvariant e = Titan \<and> actuallyPredator (player st) e
        \<and> distToPlayer st e < detectionRange (sf env) Titan)
   \<and> (0 < sf env \<longrightarrow> 200 * sf env < detectionRange (sf env) Titan)"
proof -
  have "fx (player (enemyBody env i e st)) =
     (if titanPulls env e st
      then fx (player st)
           + cos (p5_atan2 (fy e - fy (player st)) (fx e - fx (player st))) * (0.4 * sf env)
      else fx (player st))"
    by (simp add: enemyBody_player_pos steered_player)
  moreover have "fy (player (enemyBody env i e st)) =
     (if titanPulls env e st
      then fy (player st)
           + sin (p5_atan2 (fy e - fy (player st)) (fx e - fx (player st))) * (0.4 * sf env)
      else fy (player st))"
    by (simp add: enemyBody_player_pos steered_player)
  moreover note steered_shake [of env e st]
  moreover have "titanPulls env e st \<longleftrightarrow>
        fvariant e = Titan \<and> actuallyPredator (player st) e
        \<and> distToPlayer st e < detectionRange (sf env) Titan"
    by (simp add: titanPulls_def actuallyPredator_def detectionRange_def)
  moreover have "0 < sf env \<longrightarrow> 200 * sf env < detectionRange (sf env) Titan"
    by (simp add: detectionRange_def)
  ultimately show ?thesis by blast
qed

theorem titan_pull_radius_witness:
  "titanPulls demoEnv (demoFish Titan 499 60) (demoSession 20 100 0 [demoFish Titan 499 60])
   \<and> fx (player (enemyBody demoEnv 0 (demoFish Titan 499 60)
         (demoSession 20 100 0 [demoFish Titan 499 60]))) = 2 / 5
   \<and> screenShake (steered demoEnv (demoFish Titan 499 60)
         (demoSession 20 100 0 [demoFish Titan 499 60])) = 0
   \<and> screenShake (steered demoEnv (demoFish Titan 199 60)
         (demoSession 20 100 0 [demoFish Titan 199 60])) = 1 / 5
   \<and> 0 < sf demoEnv
   \<and> 200 * sf demoEnv < detectionRange (sf demoEnv) Titan"
proof -
  let ?far = "demoSession 20 100 0 [demoFish Titan 499 60]"
  let ?near = "demoSession 20 100 0 [demoFish Titan 199 60]"
  have pf: "titanPulls demoEnv (demoFish Titan 499 60) ?far"
    by (simp add: titanPulls_def)
  have pn: "titanPulls demoEnv (demoFish Titan 199 60) ?near"
    by (simp add: titanPulls_def)
  have pos: "0 < sf demoEnv" by simp
  from titan_pull_radius [of demoEnv 0 "demoFish Titan 499 60" ?far] pf pos
  have far: "fx (player (enemyBody demoEnv 0 (demoFish Titan 499 60) ?far)) = 2 / 5
      \<and> screenShake (steered demoEnv (demoFish Titan 499 60) ?far) = 0
      \<and> 200 * sf demoEnv < detectionRange (sf demoEnv) Titan"
    by (simp add: p5_atan2_right)
  from titan_pull_radius [of demoEnv 0 "demoFish Titan 199 60" ?near] pn
  have near: "screenShake (steered demoEnv (demoFish Titan 199 60) ?near) = 1 / 5"
    by simp
  from pf pos far near show ?thesis by blast
qed

text \<open>A titan of size 60 at distance 499 from a player of size 20, on a canvas of scale
  factor 1 where the detection radius of a titan is 500: after the tick the player has been
  dragged 0.4 toward it; the same at distance 201, beyond the radius of 200 of the screen
  shake. The pull is not confined to a closer sub-radius.\<close>

theorem titan_pull_counterexample:
  "distToPlayer (demoSession 20 100 0 [demoFish Titan 499 60]) (demoFish Titan 499 60) = 499
   \<and> map_option (\<lambda>s. fx (player s))
       (updateGameLogic demoEnv (demoSession 20 100 0 [demoFish Titan 499 60])) = Some (2 / 5)
   \<and> map_option (\<lambda>s. fx (player s))
       (updateGameLogic demoEnv (demoSession 20 100 0 [demoFish Titan 201 60])) = Some (2 / 5)"
  by (simp add: demo_tick_field enemyBody_player_pos steered_player titanPulls_def
      p5_atan2_right)

section \<open>Pruning off-screen enemies\<close>

text \<open>C6, as the code has it. In every tick, an enemy whose x-position after its move lies
  beyond the viewport by more than the margin of 300 times the scale factor, on either
  side, is discarded in its iteration of the loop: the list gets shorter and the enemies
  before it stay. Collision resolution is attempted for that enemy first, in the same
  iteration: health, score and sounds after the iteration are those that the collision
  resolution gives. When the enemy is not eaten, the list afterwards is the list without
  it.\<close>

theorem offscreen_pruned_after_collision:
  assumes "i < length (enemies st)"
    and "offscreen env (movedEnemy env (enemies st ! i) st)"
  shows "\<exists>st'. enemyStep env i st = Some st'
     \<and> length (enemies st') < length (enemies st)
     \<and> take i (enemies st') = take i (enemies st)
     \<and> playerHealth st' = playerHealth (resolveCollision env (distToPlayer st (enemies st ! i))
           (movedEnemy env (enemies st ! i) st) i st)
     \<and> scoreRef st' = scoreRef (resolveCollision env (distToPlayer st (enemies st ! i))
           (movedEnemy env (enemies st ! i) st) i st)
     \<and> sounds st' = sounds (resolveCollision env (distToPlayer st (enemies st ! i))
           (movedEnemy env (enemies st ! i) st) i st)
     \<and> (if distToPlayer st (enemies st ! i)
             < fsize (player st) * 0.6 + fsize (enemies st ! i) * 0.6
             \<and> fsize (enemies st ! i) \<le> fsize (player st)
         then sounds st' = Eat # sounds st
         else enemies st' = splice1 i (enemies st))"
proof -
  let ?e = "enemies st ! i"
  have run: "enemyStep env i st = Some (enemyBody env i ?e st)"
    using assms(1) by (simp add: enemyStep_def)
  have len: "length (enemies (enemyBody env i ?e st)) < length (enemies st)"
    using assms by (auto simp: enemyBody_enemies Let_def length_splice1)
  have pre: "take i (enemies (enemyBody env i ?e st)) = take i (enemies st)"
    using assms by (simp add: enemyBody_enemies Let_def splice1_def)
  have same: "playerHealth (enemyBody env i ?e st)
        = playerHealth (resolveCollision env (distToPlayer st ?e) (movedEnemy env ?e st) i st)"
      "scoreRef (enemyBody env i ?e st)
        = scoreRef (resolveCollision env (distToPlayer st ?e) (movedEnemy env ?e st) i st)"
      "sounds (enemyBody env i ?e st)
        = sounds (resolveCollision env (distToPlayer st ?e) (movedEnemy env ?e st) i st)"
    by (simp_all add: enemyBody_def Let_def resolveCollision_alt)
  have rest: "if distToPlayer st ?e < fsize (player st) * 0.6 + fsize ?e * 0.6
             \<and> fsize ?e \<le> fsize (player st)
         then sounds (enemyBody env i ?e st) = Eat # sounds st
         else enemies (enemyBody env i ?e st) = splice1 i (enemies st)"
    using assms(2) by (simp add: enemyBody_enemies enemyBody_sounds Let_def)
  from run len pre same rest show ?thesis by simp
qed

theorem offscreen_pruned_after_collision_witness:
  "(0::nat) < length (enemies (demoSession 200 100 0 [demoFish Hunter (- 310) 400]))
   \<and> offscreen demoEnv (movedEnemy demoEnv (demoFish Hunter (- 310) 400)
         (demoSession 200 100 0 [demoFish Hunter (- 310) 400]))
   \<and> (\<exists>st'. enemyStep demoEnv 0 (demoSession 200 100 0 [demoFish Hunter (- 310) 400]) = Some st'
         \<and> enemies st' = [] \<and> playerHealth st' = 65 \<and> sounds st' = [Hurt])"
proof -
  let ?e = "demoFish Hunter (- 310) 400"
  let ?st = "demoSession 200 100 0 [?e]"
  have h1: "0 < length (enemies ?st)" by simp
  have moved: "movedEnemy demoEnv ?e ?st = ?e"
    by (simp add: movedEnemy_def chasing_def actuallyPredator_def detectionRange_def
        demo_chase_rest steered_player titanPulls_def)
  have h2: "offscreen demoEnv (movedEnemy demoEnv (enemies ?st ! 0) ?st)"
    by (simp add: moved offscreen_def)
  from offscreen_pruned_after_collision [OF h1 h2]
  have "\<exists>st'. enemyStep demoEnv 0 ?st = Some st'
         \<and> enemies st' = [] \<and> playerHealth st' = 65 \<and> sounds st' = [Hurt]"
    by (auto simp: moved resolveCollision_alt splice1_def)
  with h1 h2 show ?thesis by simp
qed

text \<open>A hunter of size 400 at \<open>x = -310\<close>, beyond the margin of 300, and a player of
  size 200 at the origin: the distance 310 is below the collision threshold 360, so in the
  tick in which the hunter is discarded it still hits the player (health 100 to 65, hurt
  sound).\<close>

theorem offscreen_collision_counterexample:
  "offscreen demoEnv (demoFish Hunter (- 310) 400)
   \<and> map_option enemies
       (updateGameLogic demoEnv (demoSession 200 100 0 [demoFish Hunter (- 310) 400])) = Some []
   \<and> map_option playerHealth
       (updateGameLogic demoEnv (demoSession 200 100 0 [demoFish Hunter (- 310) 400])) = Some 65
   \<and> map_option sounds
       (updateGameLogic demoEnv (demoSession 200 100 0 [demoFish Hunter (- 310) 400]))
       = Some [Hurt]"
  by (simp add: demo_tick_field enemyBody_health enemyBody_sounds enemyBody_enemies
      offscreen_def Let_def movedEnemy_def chasing_def actuallyPredator_def detectionRange_def
      demo_chase_rest steered_player titanPulls_def splice1_def
      regenHealth_health tickInvuln_invuln)

section \<open>Spawn interval\<close>

text \<open>C7. In every tick the active spawn interval is \<open>max(600, 1500 - 5 * score)\<close>,
  except that it is exactly 300 when fewer than 8 enemies are alive and is capped at 800
  when fewer than 15 are alive, so it is never below 300; with score 0 and 3 live enemies
  it is 300. The spawn phase adds one enemy and records the time of the spawn exactly when
  the time since the last spawn exceeds the interval, and otherwise does neither. Over the
  whole tick: exactly one enemy is spawned when the time since the last recorded spawn
  exceeds the interval and none otherwise, the recorded time of the last spawn becomes the
  time of this tick in the first case and is kept in the second, and the list grows by at
  most one; with score 0 and 3 live enemies a tick spawns exactly when more than 300 ms
  have passed.\<close>

theorem spawn_interval_policy:
  "activeSpawnInterval score n =
      (if n < 8 then 300
       else if n < 15 then min 800 (max 600 (1500 - 5 * score))
       else max 600 (1500 - 5 * score))
   \<and> activeSpawnInterval 0 3 = 300
   \<and> 300 \<le> activeSpawnInterval score n
   \<and> length (enemies (spawnPhase env st)) =
      (if millis env - lastSpawnTime st
            > real_of_int (activeSpawnInterval (scoreRef st) (length (enemies st)))
       then length (enemies st) + 1 else length (enemies st))
   \<and> lastSpawnTime (spawnPhase env st) =
      (if millis env - lastSpawnTime st
            > real_of_int (activeSpawnInterval (scoreRef st) (length (enemies st)))
       then millis env else lastSpawnTime st)
   \<and> (\<exists>st'. updateGameLogic env st = Some st' \<and>
         length (enemies st') \<le> length (enemies (spawnPhase env st)) \<and>
         length (enemies st') \<le> length (enemies st) + 1 \<and>
         idCount st' =
           (if millis env - lastSpawnTime st
                 > real_of_int (activeSpawnInterval (scoreRef st) (length (enemies st)))
            then idCount st + 1 else idCount st) \<and>
         lastSpawnTime st' =
           (if millis env - lastSpawnTime st
                 > real_of_int (activeSpawnInterval (scoreRef st) (length (enemies st)))
            then millis env else lastSpawnTime st) \<and>
         (if scoreRef st = 0 \<and> length (enemies st) = 3
          then idCount st' = (if millis env - lastSpawnTime st > 300 then idCount st + 1 else idCount st)
          else idCount st \<le> idCount st'))"
proof -
  let ?late = "millis env - lastSpawnTime st
      > real_of_int (activeSpawnInterval (scoreRef st) (length (enemies st)))"
  have a: "activeSpawnInterval score n =
      (if n < 8 then 300
       else if n < 15 then min 800 (max 600 (1500 - 5 * score))
       else max 600 (1500 - 5 * score))"
    by (simp add: activeSpawnInterval_def Let_def min.commute mult.commute)
  have b: "activeSpawnInterval 0 3 = 300"
    by (simp add: activeSpawnInterval_def)
  have c: "length (enemies (spawnPhase env st)) =
      (if ?late then length (enemies st) + 1 else length (enemies st))"
    by (simp add: spawnPhase_def)
  let ?P = "\<lambda>s::Session. length (enemies s) \<le> length (enemies (spawnPhase env st))
      \<and> idCount s = (if ?late then idCount st + 1 else idCount st)
      \<and> lastSpawnTime s = (if ?late then millis env else lastSpawnTime st)"
  have stamp: "lastSpawnTime (spawnPhase env st) =
      (if ?late then millis env else lastSpawnTime st)"
    by (simp add: spawnPhase_def spawnEnemy_def Let_def)
  have start: "?P (beforeLoop env st)"
    by (simp add: beforeLoop_def spawnPhase_def spawnEnemy_def Let_def)
  have "\<exists>st'. updateGameLogic env st = Some st' \<and> ?P st'"
  proof (rule updateGameLogic_invariant [where P = ?P, OF start])
    fix i s
    assume "i < length (enemies s)" and "?P s"
    then show "?P (enemyBody env i (enemies s ! i) s)"
      using enemyBody_length [of i s env "enemies s ! i"]
      by (simp add: enemyBody_spawn_counters)
  next
    fix s assume "?P s" then show "?P (finishTick env s)" by simp
  qed
  then obtain st' where d: "updateGameLogic env st = Some st'" and inv: "?P st'" by blast
  from inv c have e: "length (enemies st') \<le> length (enemies st) + 1"
    by (simp split: if_splits)
  have f: "if scoreRef st = 0 \<and> length (enemies st) = 3
          then idCount st' = (if millis env - lastSpawnTime st > 300 then idCount st + 1 else idCount st)
          else idCount st \<le> idCount st'"
    using inv b by auto
  from a b c d e f inv activeSpawnInterval_floor [of score n] stamp
  show ?thesis by blast
qed

theorem spawn_interval_policy_witness:
  "activeSpawnInterval 0 3 = 300
   \<and> activeSpawnInterval 100 10 = 800
   \<and> activeSpawnInterval 100 20 = 1000
   \<and> length (enemies (spawnPhase (demoEnv\<lparr> millis := 1000 \<rparr>) (demoSession 20 100 0 []))) = 1
   \<and> (\<exists>st1. updateGameLogic (demoEnv\<lparr> millis := 1000 \<rparr>) (demoSession 20 100 0 []) = Some st1
          \<and> length (enemies st1) = 1 \<and> idCount st1 = 1 \<and> lastSpawnTime st1 = 1000
          \<and> (\<exists>st2. updateGameLogic (demoEnv\<lparr> millis := 1016 \<rparr>) st1 = Some st2
                 \<and> idCount st2 = 1 \<and> lastSpawnTime st2 = 1000 \<and> length (enemies st2) \<le> 1))
   \<and> (\<exists>st'. updateGameLogic (demoEnv\<lparr> millis := 301 \<rparr>)
               (demoSession 20 100 0 [demoFish Prey 400 10, demoFish Prey 500 10, demoFish Prey 600 10])
             = Some st'
          \<and> idCount st' = 1 \<and> lastSpawnTime st' = 301)
   \<and> (\<exists>st'. updateGameLogic (demoEnv\<lparr> millis := 300 \<rparr>)
               (demoSession 20 100 0 [demoFish Prey 400 10, demoFish Prey 500 10, demoFish Prey 600 10])
             = Some st'
          \<and> idCount st' = 0 \<and> lastSpawnTime st' = 0)"
proof -
  let ?env = "demoEnv\<lparr> millis := 1000 \<rparr>"
  let ?env2 = "demoEnv\<lparr> millis := 1016 \<rparr>"
  let ?st = "demoSession 20 100 0 []"
  let ?three = "demoSession 20 100 0 [demoFish Prey 400 10, demoFish Prey 500 10, demoFish Prey 600 10]"
  have zero: "idCount (demoSession pSize health timer es) = 0" for pSize health timer es
    by (simp add: demoSession_def)
  have late: "millis ?env - lastSpawnTime ?st
      > real_of_int (activeSpawnInterval (scoreRef ?st) (length (enemies ?st)))"
    by (simp add: activeSpawnInterval_def)
  note a = spawn_interval_policy [of 0 3 ?env ?st]
  note b = spawn_interval_policy [of 100 10 ?env ?st]
  note c = spawn_interval_policy [of 100 20 ?env ?st]
  from a have w1: "activeSpawnInterval 0 3 = 300" by blast
  from b have w2: "activeSpawnInterval 100 10 = 800" by simp
  from c have w3: "activeSpawnInterval 100 20 = 1000" by simp
  from a late have w4: "length (enemies (spawnPhase ?env ?st)) = 1" by simp
  from a late obtain st1 where
    st1: "updateGameLogic ?env ?st = Some st1" "idCount st1 = 1" "lastSpawnTime st1 = 1000"
    by (auto simp: zero)
  from demo_spawn_survives st1(1) have len1: "length (enemies st1) = 1"
    by (auto dest: arg_cong [where f = length])
  have early: "\<not> millis ?env2 - lastSpawnTime st1
      > real_of_int (activeSpawnInterval (scoreRef st1) (length (enemies st1)))"
    using activeSpawnInterval_floor [of "scoreRef st1" "length (enemies st1)"] st1(3)
    by simp
  from spawn_interval_policy [of 0 3 ?env2 st1] early obtain st2 where
    st2: "updateGameLogic ?env2 st1 = Some st2" "idCount st2 = 1" "lastSpawnTime st2 = 1000"
      "length (enemies st2) \<le> 1"
    using st1(2,3) len1 by auto
  from st1 len1 st2 have w5: "\<exists>st1. updateGameLogic ?env ?st = Some st1
          \<and> length (enemies st1) = 1 \<and> idCount st1 = 1 \<and> lastSpawnTime st1 = 1000
          \<and> (\<exists>st2. updateGameLogic ?env2 st1 = Some st2
                 \<and> idCount st2 = 1 \<and> lastSpawnTime st2 = 1000 \<and> length (enemies st2) \<le> 1)"
    by blast
  have late3: "millis (demoEnv\<lparr> millis := 301 \<rparr>) - lastSpawnTime ?three
      > real_of_int (activeSpawnInterval (scoreRef ?three) (length (enemies ?three)))"
    by (simp add: activeSpawnInterval_def)
  have early3: "\<not> millis (demoEnv\<lparr> millis := 300 \<rparr>) - lastSpawnTime ?three
      > real_of_int (activeSpawnInterval (scoreRef ?three) (length (enemies ?three)))"
    by (simp add: activeSpawnInterval_def)
  from spawn_interval_policy [of 0 3 "demoEnv\<lparr> millis := 301 \<rparr>" ?three] late3
  have w6: "\<exists>st'. updateGameLogic (demoEnv\<lparr> millis := 301 \<rparr>) ?three = Some st'
          \<and> idCount st' = 1 \<and> lastSpawnTime st' = 301"
    by (auto simp: zero)
  from spawn_interval_policy [of 0 3 "demoEnv\<lparr> millis := 300 \<rparr>" ?three] early3
  have w7: "\<exists>st'. updateGameLogic (demoEnv\<lparr> millis := 300 \<rparr>) ?three = Some st'
          \<and> idCount st' = 0 \<and> lastSpawnTime st' = 0"
    by (auto simp: zero)
  from w1 w2 w3 w4 w5 w6 w7 show ?thesis by blast
qed

section \<open>Predator classification\<close>

text \<open>C8. An enemy is classified as predatory exactly when its size is strictly greater
  than the player's current size: at size \<open>player.size - eps\<close> (with \<open>eps > 0\<close>) it is
  never predatory, at \<open>player.size + eps\<close> it always is, and at equal size it is not. The
  chase branch is entered exactly when the enemy is predatory and within its detection
  range; an enemy that is not predatory leaves the session untouched while it steers, and
  wanders.\<close>
theorem predator_classification:
  "(actuallyPredator pl e \<longleftrightarrow> fsize pl < fsize e)
   \<and> (0 < eps \<longrightarrow> \<not> actuallyPredator pl (e\<lparr> fsize := fsize pl - eps \<rparr>)
                  \<and> actuallyPredator pl (e\<lparr> fsize := fsize pl + eps \<rparr>))
   \<and> \<not> actuallyPredator pl (e\<lparr> fsize := fsize pl \<rparr>)
   \<and> (chasing env pl e d \<longleftrightarrow> fsize pl < fsize e \<and> d < detectionRange (sf env) (fvariant e))
   \<and> (fsize e \<le> fsize (player st) \<longrightarrow>
         steered env e st = st \<and> movedEnemy env e st = moveEnemy (wander env e))"
  by (simp add: actuallyPredator_def chasing_def steered_def movedEnemy_def)

theorem predator_classification_witness:
  "(0::real) < 1
   \<and> \<not> actuallyPredator (demoFish Player 0 20)
         ((demoFish Prey 10 15)\<lparr> fsize := fsize (demoFish Player 0 20) - 1 \<rparr>)
   \<and> actuallyPredator (demoFish Player 0 20)
         ((demoFish Prey 10 15)\<lparr> fsize := fsize (demoFish Player 0 20) + 1 \<rparr>)
   \<and> fsize (demoFish Prey 10 15) \<le> fsize (player (demoSession 20 100 0 []))
   \<and> steered demoEnv (demoFish Prey 10 15) (demoSession 20 100 0 []) = demoSession 20 100 0 []
   \<and> movedEnemy demoEnv (demoFish Prey 10 15) (demoSession 20 100 0 [])
       = moveEnemy (wander demoEnv (demoFish Prey 10 15))"
proof -
  have pos: "(0::real) < 1" by simp
  have small: "fsize (demoFish Prey 10 15) \<le> fsize (player (demoSession 20 100 0 []))"
    by simp
  note general = predator_classification [where pl = "demoFish Player 0 20"
      and e = "demoFish Prey 10 15" and eps = 1 and st = "demoSession 20 100 0 []"
      and env = demoEnv and d = 0]
  from general pos small show ?thesis by blast
qed

section \<open>Shockwave scenario\<close>

text \<open>C9. A shockwave with maxRadius 100, currentRadius 10, alpha 200 and line width 8 (as
  spawned at scale factor 1): in each of its 20 frames the radius strictly increases; it
  is in the list after each of the first 19 frames; the radius is within 1 of 100 after
  frame 16 (below) and after frame 17 (above); the alpha, lowered by 10 per frame, is 0
  after frame 20, and in that frame the shockwave is removed.\<close>

theorem shockwave_scenario:
  assumes "maxRadius sw = 100" and "currentRadius sw = 10"
    and "salpha sw = 200" and "lineWidth sw = 8"
  shows "(\<forall>n<20. currentRadius ((updateShockwave 1 ^^ n) sw)
                  < currentRadius ((updateShockwave 1 ^^ Suc n) sw))
    \<and> (\<forall>n<20. shockwaveFrames 1 n [sw] = Some [(updateShockwave 1 ^^ n) sw])
    \<and> 99 < currentRadius ((updateShockwave 1 ^^ 16) sw)
    \<and> currentRadius ((updateShockwave 1 ^^ 16) sw) < 100
    \<and> 100 < currentRadius ((updateShockwave 1 ^^ 17) sw)
    \<and> currentRadius ((updateShockwave 1 ^^ 17) sw) < 101
    \<and> salpha ((updateShockwave 1 ^^ 20) sw) = 0
    \<and> shockwaveFrames 1 20 [sw] = Some []"
proof -
  let ?u = "updateShockwave 1"
  have grow: "currentRadius ((?u ^^ n) sw) < currentRadius ((?u ^^ Suc n) sw)" for n
    by (rule radius_strictly_increasing) (simp_all add: assms)
  have alive: "\<not> shockwaveGone ((?u ^^ k) sw)" if "k \<le> 19" for k
  proof -
    from that have "real k \<le> 19" by simp
    then have a: "0 < salpha ((?u ^^ k) sw)"
      by (simp add: updateShockwave_iter assms)
    have "(0.9::real) ^ 19 \<le> 0.9 ^ k"
      using that by (intro power_decreasing) simp_all
    moreover have "(1 / 16 :: real) \<le> 0.9 ^ 19" by (simp add: power_divide)
    ultimately have "(1 / 16 :: real) \<le> 0.9 ^ k" by linarith
    then have b: "0.5 \<le> lineWidth ((?u ^^ k) sw)"
      by (simp add: updateShockwave_iter assms)
    from a b show ?thesis by (simp add: shockwaveGone_def)
  qed
  have frames: "shockwaveFrames 1 n [sw] = Some [(?u ^^ n) sw]" if "n < 20" for n
    by (rule frames_single_alive) (use that in \<open>simp add: alive\<close>)
  have r16: "99 < currentRadius ((?u ^^ 16) sw) \<and> currentRadius ((?u ^^ 16) sw) < 100"
    by (simp add: radius_closed_form assms power_divide)
  have r17: "100 < currentRadius ((?u ^^ 17) sw) \<and> currentRadius ((?u ^^ 17) sw) < 101"
    by (simp add: radius_closed_form assms power_divide)
  have faded: "salpha ((?u ^^ 20) sw) = 0"
    by (simp add: updateShockwave_iter assms)
  have f19: "shockwaveFrames 1 19 [sw] = Some [(?u ^^ 19) sw]"
    by (rule frames) simp
  have "(?u ^^ Suc 19) sw = ?u ((?u ^^ 19) sw)"
    by (simp only: funpow.simps o_apply)
  then have unfold20: "?u ((?u ^^ 19) sw) = (?u ^^ 20) sw" by simp
  have dead: "shockwaveGone (?u ((?u ^^ 19) sw))"
    by (simp only: unfold20 shockwaveGone_def faded) simp
  have "shockwaveFrames 1 (19 + 1) [sw] = shockwaveFrames 1 1 [(?u ^^ 19) sw]"
    by (simp only: shockwaveFrames_add f19 option.case)
  also have "\<dots> = Some []"
    using dead by (simp add: drawShockwaves_filter del: funpow.simps)
  finally have gone: "shockwaveFrames 1 20 [sw] = Some []" by simp
  from grow frames r16 r17 faded gone show ?thesis by blast
qed

theorem shockwave_scenario_witness:
  "shockwaves (spawnShockwave demoEnv 0 0 (0, 255, 255) (demoSession 20 100 0 []))
     = [demoShockwave]
   \<and> maxRadius demoShockwave = 100 \<and> currentRadius demoShockwave = 10
   \<and> salpha demoShockwave = 200 \<and> lineWidth demoShockwave = 8
   \<and> (19::nat) < 20
   \<and> currentRadius ((updateShockwave 1 ^^ 19) demoShockwave)
       < currentRadius ((updateShockwave 1 ^^ Suc 19) demoShockwave)
   \<and> shockwaveFrames 1 19 [demoShockwave] = Some [(updateShockwave 1 ^^ 19) demoShockwave]
   \<and> shockwaveFrames 1 20 [demoShockwave] = Some []"
proof -
  have h: "maxRadius demoShockwave = 100" "currentRadius demoShockwave = 10"
      "salpha demoShockwave = 200" "lineWidth demoShockwave = 8"
    by (simp_all add: demoShockwave_def)
  have lt: "(19::nat) < 20" by simp
  from shockwave_scenario [OF h] lt demo_spawnShockwave h show ?thesis by blast
qed

section \<open>What a tick leaves of an enemy\<close>

text \<open>C10. The update of one enemy changes its position and velocity only: id, size,
  speed, color, variant and noise offset are as before. Over a whole tick, the enemies that
  remain are, in order and with these six fields unchanged, among the enemies at the start
  of the loop, which are the enemies at the start of the tick followed by at most the one
  spawned in this tick.\<close>

theorem survivors_keep_fixed_fields:
  "fixedPart (movedEnemy env e st) = fixedPart e
   \<and> (\<exists>st'. updateGameLogic env st = Some st'
         \<and> subseq (map fixedPart (enemies st')) (map fixedPart (enemies (beforeLoop env st))))
   \<and> map fixedPart (enemies st) = take (length (enemies st)) (map fixedPart (enemies (beforeLoop env st)))"
proof -
  let ?b = "beforeLoop env st"
  let ?P = "\<lambda>s::Session. subseq (map fixedPart (enemies s)) (map fixedPart (enemies ?b))"
  have start: "?P ?b" by simp
  have tick: "\<exists>st'. updateGameLogic env st = Some st' \<and> ?P st'"
  proof (rule updateGameLogic_invariant [where P = ?P, OF start])
    fix i s
    assume "i < length (enemies s)" and "?P s"
    with enemyBody_fixed [of i s env] show "?P (enemyBody env i (enemies s ! i) s)"
      using subseq_order.trans by blast
  next
    fix s assume "?P s" then show "?P (finishTick env s)" by simp
  qed
  have before: "map fixedPart (enemies st) = take (length (enemies st)) (map fixedPart (enemies ?b))"
    by (simp add: beforeLoop_def spawnPhase_def spawnEnemy_def Let_def)
  from tick before show ?thesis by simp
qed

theorem survivors_keep_fixed_fields_witness:
  "\<exists>st'. updateGameLogic demoEnv (demoSession 20 100 0 [demoFish Prey 400 10]) = Some st'
      \<and> map fixedPart (enemies st') = [fixedPart (demoFish Prey 400 10)]"
proof -
  let ?st = "demoSession 20 100 0 [demoFish Prey 400 10]"
  from survivors_keep_fixed_fields [where env = demoEnv and e = "demoFish Prey 400 10" and st = ?st]
  obtain st' where run: "updateGameLogic demoEnv ?st = Some st'"
    and sub: "subseq (map fixedPart (enemies st')) (map fixedPart (enemies (beforeLoop demoEnv ?st)))"
    by blast
  have "map_option (\<lambda>s. length (enemies s)) (updateGameLogic demoEnv ?st) = Some 1"
    by (simp add: demo_tick_field enemyBody_enemies Let_def movedEnemy_def chasing_def
        actuallyPredator_def demo_wander_rest offscreen_def)
  with run have len: "length (map fixedPart (enemies st')) = length [fixedPart (demoFish Prey 400 10)]"
    by simp
  from sub have "subseq (map fixedPart (enemies st')) [fixedPart (demoFish Prey 400 10)]"
    by simp
  from this len have "map fixedPart (enemies st') = [fixedPart (demoFish Prey 400 10)]"
    by (rule subseq_same_length)
  with run show ?thesis by (intro exI [of _ st'] conjI)
qed

end
